theory Spec2Isabelle
  imports Main "HOL-Library.Sublist"
begin

section \<open>Text primitives of the host language\<close>

text \<open>
  The script \<^verbatim>\<open>keyvalue/javascript/run.py\<close> works on Python \<^verbatim>\<open>str\<close> values. They are
  modelled as \<^typ>\<open>string\<close>, one \<^typ>\<open>char\<close> per code point, which covers the code
  points below 256. On that range \<^verbatim>\<open>str.isspace\<close>, \<^verbatim>\<open>str.strip\<close> and
  \<^verbatim>\<open>str.lower\<close> are the functions below. A value that may be \<^verbatim>\<open>None\<close> is a
  \<^typ>\<open>string option\<close>.
\<close>

definition isspace :: "char \<Rightarrow> bool" where
  "isspace c = (of_char c \<in> {9::nat, 10, 11, 12, 13, 28, 29, 30, 31, 32, 133, 160})"

definition strip :: "string \<Rightarrow> string" where
  "strip s = rev (dropWhile isspace (rev (dropWhile isspace s)))"

definition lower_char :: "char \<Rightarrow> char" where
  "lower_char c =
     (let n = (of_char c :: nat)
      in if 65 \<le> n \<and> n \<le> 90 then char_of (n + 32)
         else if 192 \<le> n \<and> n \<le> 222 \<and> n \<noteq> 215 then char_of (n + 32)
         else c)"

definition lower :: "string \<Rightarrow> string" where
  "lower s = map lower_char s"

text \<open>\<^verbatim>\<open>sub in s\<close>: \<open>sub\<close> occurs in \<open>s\<close> as a contiguous piece.\<close>

fun str_in :: "string \<Rightarrow> string \<Rightarrow> bool" where
  "str_in sub [] = (sub = [])"
| "str_in sub (c # cs) = (prefix sub (c # cs) \<or> str_in sub cs)"

text \<open>
  \<^verbatim>\<open>s.split(sep)\<close> cuts \<open>s\<close> at the occurrences of \<open>sep\<close>, found from the left and
  not overlapping. \<open>split_from\<close> is the scan, \<open>piece\<close> the text since the last cut.
  Python raises \<^verbatim>\<open>ValueError\<close> on an empty separator; the two calls of the script pass
  the literals \<^verbatim>\<open>'\n'\<close> and \<^verbatim>\<open>'Status:'\<close>.
\<close>

fun split_from :: "string \<Rightarrow> string \<Rightarrow> string \<Rightarrow> string list" where
  "split_from sep piece [] = [piece]"
| "split_from sep piece (c # cs) =
     (if prefix sep (c # cs) then piece # split_from sep [] (drop (length sep - 1) cs)
      else split_from sep (piece @ [c]) cs)"

definition split :: "string \<Rightarrow> string \<Rightarrow> string list" where
  "split s sep = (if sep = [] then [] else split_from sep [] s)"

text \<open>How an f-string renders a value that may be \<^verbatim>\<open>None\<close>.\<close>

definition fstr :: "string option \<Rightarrow> string" where
  "fstr v = (case v of None \<Rightarrow> ''None'' | Some s \<Rightarrow> s)"

section \<open>The world outside the script\<close>

text \<open>
  \<open>proc\<close> is what \<^verbatim>\<open>subprocess.run(..., capture_output=True, text=True)\<close> returns.
  The \<open>world\<close> answers every question the script asks outside itself: \<open>shell w n c\<close>
  is the result of running the command line \<open>c\<close> when \<open>n\<close> commands have been run
  before it; \<open>isfile\<close> and \<open>path_exists\<close> are \<^verbatim>\<open>os.path.isfile\<close> and
  \<^verbatim>\<open>os.path.exists\<close> at the one point where \<open>main\<close> and
  \<open>scaffold_and_update_config\<close> ask; \<open>remove_raises p\<close> holds when
  \<^verbatim>\<open>os.remove(p)\<close> raises.
\<close>

record proc =
  returncode :: int
  stdout :: string
  stderr :: string

record world =
  shell :: "nat \<Rightarrow> string \<Rightarrow> proc"
  isfile :: "string \<Rightarrow> bool"
  path_exists :: "string \<Rightarrow> bool"
  remove_raises :: "string \<Rightarrow> bool"

text \<open>
  The effects of a run, in order. \<open>Spinner_fail t\<close> is \<^verbatim>\<open>spinner.fail\<close> with the
  cross mark followed by the text \<open>t\<close>, \<open>Spinner_ok\<close> is \<^verbatim>\<open>spinner.ok\<close> with the
  check mark (the two marks lie outside the modelled character range). What the
  script prints is not traced.
\<close>

datatype event =
  Cmd string
| Sleep nat
| Spinner_ok
| Spinner_fail string
| Set_env string string
| Parse_args
| Remove string

datatype exn =
  SystemExit int
| CalledProcessError int string string string
| AttributeError
| IndexError

record st =
  calls :: nat
  trace :: "event list"
  environ :: "string \<rightharpoonup> string"

definition emit :: "event \<Rightarrow> st \<Rightarrow> st" where
  "emit e s = s\<lparr>trace := trace s @ [e]\<rparr>"

definition then_do ::
  "(st \<Rightarrow> (exn + 'a) \<times> st) \<Rightarrow> ('a \<Rightarrow> st \<Rightarrow> (exn + 'b) \<times> st) \<Rightarrow> st \<Rightarrow> (exn + 'b) \<times> st" where
  "then_do m f s = (case m s of (Inl e, s') \<Rightarrow> (Inl e, s') | (Inr v, s') \<Rightarrow> f v s')"

text \<open>The exit status of the interpreter: an uncaught exception other than
  \<^verbatim>\<open>SystemExit\<close> prints a traceback and exits with status 1.\<close>

definition exit_status :: "exn + unit \<Rightarrow> int" where
  "exit_status r = (case r of Inr _ \<Rightarrow> 0 | Inl (SystemExit n) \<Rightarrow> n | Inl _ \<Rightarrow> 1)"

section \<open>The script\<close>

definition error :: "string \<Rightarrow> st \<Rightarrow> (exn + 'a) \<times> st" where
  "error message s = (Inl (SystemExit 1), emit (Spinner_fail []) s)"

definition run_command :: "world \<Rightarrow> string \<Rightarrow> bool \<Rightarrow> st \<Rightarrow> (exn + string option) \<times> st" where
  "run_command w command check s =
     (let result = shell w (calls s) command;
          s' = emit (Cmd command) (s\<lparr>calls := Suc (calls s)\<rparr>)
      in if returncode result \<noteq> 0 then
           (if check then
              (Inl (CalledProcessError (returncode result) command (stdout result) (stderr result)), s')
            else (Inr None, s'))
         else (Inr (Some (strip (stdout result))), s'))"

definition NODEJS_INSTRUCTIONS :: string where
  "NODEJS_INSTRUCTIONS =
     [CHR 0x0A] @ ''Node.js and npm must be installed to run this script. Full instructions can''
     @ [CHR 0x0A] @ ''be found on the Node.js web site:'' @ [CHR 0x0A] @ [CHR 0x0A]
     @ ''  https://nodejs.org/en/download'' @ [CHR 0x0A]"

definition check_js_installed :: "world \<Rightarrow> st \<Rightarrow> (exn + unit) \<times> st" where
  "check_js_installed w =
     then_do (run_command w ''node -v'' False) (\<lambda>node_check.
     then_do (run_command w ''npm -v'' False) (\<lambda>npm_check.
       if node_check = None \<or> npm_check = None
       then error NODEJS_INSTRUCTIONS
       else (\<lambda>s. (Inr (), emit Spinner_ok s))))"

definition create_project :: "world \<Rightarrow> string option \<Rightarrow> st \<Rightarrow> (exn + unit) \<times> st" where
  "create_project w project_name s =
     (case run_command w (''diagrid project create '' @ fstr project_name @ '' --deploy-managed-kv'') True s of
        (Inr _, s') \<Rightarrow> (Inr (), emit Spinner_ok s')
      | (Inl (CalledProcessError _ _ _ _), s') \<Rightarrow>
          (Inl (SystemExit 1), emit (Spinner_fail '' Failed to create project'') s')
      | (Inl e, s') \<Rightarrow> (Inl e, s'))"

definition create_appid :: "world \<Rightarrow> string option \<Rightarrow> string \<Rightarrow> st \<Rightarrow> (exn + unit) \<times> st" where
  "create_appid w project_name appid_name s =
     (case run_command w (''diagrid appid create -p '' @ fstr project_name @ '' '' @ appid_name) True s of
        (Inr _, s') \<Rightarrow> (Inr (), emit Spinner_ok s')
      | (Inl (CalledProcessError _ _ _ _), s') \<Rightarrow>
          (Inl (SystemExit 1), emit (Spinner_fail ('' Failed to create App ID '' @ appid_name)) s')
      | (Inl e, s') \<Rightarrow> (Inl e, s'))"

text \<open>The \<^verbatim>\<open>for line in status_lines\<close> loop of \<open>check_appid_status\<close>: the result is
  the pair of \<open>status\<close> and \<open>last_status\<close> after it.\<close>

fun scan_lines :: "string list \<Rightarrow> string option \<Rightarrow> exn + (string option \<times> string option)" where
  "scan_lines [] last_status = Inr (None, last_status)"
| "scan_lines (line # rest) last_status =
     (if str_in ''Status:'' line then
        (case split line ''Status:'' of
           _ # v # _ \<Rightarrow> Inr (Some (strip v), Some (strip v))
         | _ \<Rightarrow> Inl IndexError)
      else scan_lines rest last_status)"

text \<open>\<^verbatim>\<open>status and (status.lower() == "ready" or status.lower() == "available")\<close>\<close>

definition is_ready :: "string option \<Rightarrow> bool" where
  "is_ready status =
     (case status of
        None \<Rightarrow> False
      | Some v \<Rightarrow> v \<noteq> [] \<and> (lower v = ''ready'' \<or> lower v = ''available''))"

definition max_attempts :: int where
  "max_attempts = 8"

definition status_command :: "string option \<Rightarrow> string \<Rightarrow> string" where
  "status_command project_name appid_name =
     ''diagrid appid get '' @ appid_name @ '' -p '' @ fstr project_name"

text \<open>How the \<^verbatim>\<open>while\<close> loop of \<open>check_appid_status\<close> is left: by \<^verbatim>\<open>return\<close>, or
  by its condition turning false, with the value of \<open>last_status\<close>.\<close>

datatype loop_exit = Returned | Exhausted "string option"

function while_attempts ::
  "world \<Rightarrow> string option \<Rightarrow> string \<Rightarrow> int \<Rightarrow> string option \<Rightarrow> st \<Rightarrow> (exn + loop_exit) \<times> st" where
  "while_attempts w project_name appid_name attempt last_status s =
     (if attempt \<le> max_attempts then
        (case run_command w (status_command project_name appid_name) False s of
           (Inl e, s1) \<Rightarrow> (Inl e, s1)
         | (Inr None, s1) \<Rightarrow> (Inl AttributeError, s1)
         | (Inr (Some status_output), s1) \<Rightarrow>
             (case scan_lines (split status_output [CHR 0x0A]) last_status of
                Inl e \<Rightarrow> (Inl e, s1)
              | Inr (status, last_status') \<Rightarrow>
                  if is_ready status then (Inr Returned, emit Spinner_ok s1)
                  else while_attempts w project_name appid_name (attempt + 1) last_status'
                         (emit (Sleep 10) s1)))
      else (Inr (Exhausted last_status), s))"
  by pat_completeness auto
termination
  by (relation "measure (\<lambda>(w, p, a, attempt, l, s). nat (max_attempts + 1 - attempt))") auto

definition check_appid_status :: "world \<Rightarrow> string option \<Rightarrow> string \<Rightarrow> st \<Rightarrow> (exn + unit) \<times> st" where
  "check_appid_status w project_name appid_name s =
     (case while_attempts w project_name appid_name 1 None s of
        (Inl e, s') \<Rightarrow> (Inl e, s')
      | (Inr Returned, s') \<Rightarrow> (Inr (), s')
      | (Inr (Exhausted last_status), s') \<Rightarrow>
          (Inl (SystemExit 1),
           emit (Spinner_fail ('' '' @ appid_name @ '' is not ready. Once current status ''
                   @ fstr last_status @ '' becomes ready, you can proceed.'')) s'))"

definition set_default_project :: "world \<Rightarrow> string option \<Rightarrow> st \<Rightarrow> (exn + unit) \<times> st" where
  "set_default_project w project_name s =
     (case run_command w (''diagrid project use '' @ fstr project_name) True s of
        (Inr _, s') \<Rightarrow> (Inr (), emit Spinner_ok s')
      | (Inl (CalledProcessError _ _ _ _), s') \<Rightarrow>
          (Inl (SystemExit 1), emit (Spinner_fail '' Failed to set default project'') s')
      | (Inl e, s') \<Rightarrow> (Inl e, s'))"

definition env_name :: string where
  "env_name = ''diagrid-venv''"

definition scaffold_and_update_config :: "world \<Rightarrow> string \<Rightarrow> st \<Rightarrow> (exn + unit) \<times> st" where
  "scaffold_and_update_config w config_file =
     then_do (run_command w ''diagrid dev scaffold'' True) (\<lambda>scaffold_output.
     then_do (if scaffold_output = None then error ''Failed to prepare dev config file''
              else (\<lambda>s. (Inr (), s))) (\<lambda>_.
     then_do (if path_exists w env_name
              then run_command w (''rm -rf '' @ env_name) True
              else (\<lambda>s. (Inr None, s))) (\<lambda>_.
     then_do (run_command w (''python3 -m venv '' @ env_name) True) (\<lambda>_.
     then_do (run_command w (''./'' @ env_name @ ''/bin/pip install pyyaml'') True) (\<lambda>_.
     then_do (run_command w (''./'' @ env_name @ ''/bin/python scaffold.py'') True) (\<lambda>_.
       (\<lambda>s. (Inr (), emit Spinner_ok s))))))))"

text \<open>What \<^verbatim>\<open>parser.parse_args()\<close> found on a well-formed command line: each of the two
  flags, when it was given.\<close>

record args =
  arg_project_name :: "string option"
  arg_config_file :: "string option"

text \<open>The \<^verbatim>\<open>if os.path.isfile(config_file)\<close> block of \<open>main\<close>.\<close>

definition remove_existing :: "world \<Rightarrow> string \<Rightarrow> st \<Rightarrow> (exn + unit) \<times> st" where
  "remove_existing w config_file s =
     (if isfile w config_file then
        (if remove_raises w config_file
         then error (''Error deleting file '' @ config_file) (emit (Remove config_file) s)
         else (Inr (), emit (Remove config_file) s))
      else (Inr (), s))"

definition main :: "world \<Rightarrow> args \<Rightarrow> st \<Rightarrow> (exn + unit) \<times> st" where
  "main w argv s =
     (let prj_name = environ s ''QUICKSTART_PROJECT_NAME'';
          config_file_name = ''dev-'' @ fstr prj_name @ ''.yaml'';
          s1 = emit (Set_env ''CONFIG_FILE'' config_file_name)
                 (s\<lparr>environ := (environ s)(''CONFIG_FILE'' \<mapsto> config_file_name)\<rparr>);
          s2 = emit Parse_args s1;
          project_name = (case arg_project_name argv of None \<Rightarrow> prj_name | Some p \<Rightarrow> Some p);
          appid_name = ''order-app'';
          config_file = (case arg_config_file argv of None \<Rightarrow> config_file_name | Some c \<Rightarrow> c)
      in then_do (create_project w prj_name) (\<lambda>_.
         then_do (set_default_project w prj_name) (\<lambda>_.
         then_do (create_appid w prj_name appid_name) (\<lambda>_.
         then_do (check_appid_status w project_name appid_name) (\<lambda>_.
         then_do (remove_existing w config_file) (\<lambda>_.
           scaffold_and_update_config w config_file))))) s2)"

section \<open>Reading a run of the poller\<close>

text \<open>\<open>query w p a s i\<close> is the result of the status query number \<open>i\<close> (from 0) of a
  poll of App ID \<open>a\<close> in project \<open>p\<close> that starts in state \<open>s\<close>.\<close>

definition query :: "world \<Rightarrow> string option \<Rightarrow> string \<Rightarrow> st \<Rightarrow> nat \<Rightarrow> proc" where
  "query w p a s i = shell w (calls s + i) (status_command p a)"

text \<open>The status that the body of the loop reads from a query result with exit code 0:
  \<open>None\<close> when no line of the output holds the marker.\<close>

definition observed :: "proc \<Rightarrow> string option" where
  "observed r =
     (case scan_lines (split (strip (stdout r)) [CHR 0x0A]) None of
        Inr (status, _) \<Rightarrow> status
      | Inl _ \<Rightarrow> None)"

text \<open>A query that answered, with a status that does not end the loop.\<close>

definition pending :: "proc \<Rightarrow> bool" where
  "pending r = (returncode r = 0 \<and> \<not> is_ready (observed r))"

text \<open>Following the data model of the specification: \<open>last_status\<close> is replaced when
  a status was parsed in a round and left at its previous value otherwise.\<close>

fun last_observed :: "string option \<Rightarrow> string option list \<Rightarrow> string option" where
  "last_observed prev [] = prev"
| "last_observed prev (None # xs) = last_observed prev xs"
| "last_observed prev (Some v # xs) = last_observed (Some v) xs"

text \<open>The state after \<open>n\<close> rounds that did not end the loop: \<open>n\<close> queries, each
  followed by the delay.\<close>

definition polled :: "string option \<Rightarrow> string \<Rightarrow> nat \<Rightarrow> st \<Rightarrow> st" where
  "polled p a n s =
     s\<lparr>calls := calls s + n,
       trace := trace s @ concat (replicate n [Cmd (status_command p a), Sleep 10])\<rparr>"

section \<open>Sample worlds\<close>

text \<open>A world with the given command results and an empty directory, the initial state of
  a run with an empty environment, and four command-line tools: one that fails every
  command, one whose App ID stays pending, one that prints nothing, and one whose App ID
  is ready at the third command.\<close>

definition quiet_world :: "(nat \<Rightarrow> string \<Rightarrow> proc) \<Rightarrow> world" where
  "quiet_world sh = \<lparr>shell = sh, isfile = (\<lambda>_. False), path_exists = (\<lambda>_. False),
                      remove_raises = (\<lambda>_. False)\<rparr>"

definition s0 :: st where
  "s0 = \<lparr>calls = 0, trace = [], environ = Map.empty\<rparr>"

definition failing_shell :: "nat \<Rightarrow> string \<Rightarrow> proc" where
  "failing_shell n c = \<lparr>returncode = 1, stdout = [], stderr = ''not found''\<rparr>"

definition pending_shell :: "nat \<Rightarrow> string \<Rightarrow> proc" where
  "pending_shell n c = \<lparr>returncode = 0, stdout = ''Status: pending'', stderr = []\<rparr>"

definition silent_shell :: "nat \<Rightarrow> string \<Rightarrow> proc" where
  "silent_shell n c = \<lparr>returncode = 0, stdout = [], stderr = []\<rparr>"

definition ready_third_shell :: "nat \<Rightarrow> string \<Rightarrow> proc" where
  "ready_third_shell n c =
     (if n = 2 then \<lparr>returncode = 0, stdout = ''Name: order-app'' @ [CHR 0x0A] @ ''Status: Ready'', stderr = []\<rparr>
      else \<lparr>returncode = 0, stdout = ''Status: pending'', stderr = []\<rparr>)"

section \<open>Reading a run of the script\<close>

text \<open>The values of the local variables \<open>prj_name\<close>, \<open>config_file_name\<close>, \<open>project_name\<close>
  and \<open>config_file\<close> of \<open>main\<close> in a run that starts in state \<open>s\<close> with the parsed
  arguments \<open>argv\<close>, and the state in which \<open>main\<close> calls its first step.\<close>

definition main_prj_name :: "st \<Rightarrow> string option" where
  "main_prj_name s = environ s ''QUICKSTART_PROJECT_NAME''"

definition main_config_file_name :: "st \<Rightarrow> string" where
  "main_config_file_name s = ''dev-'' @ fstr (main_prj_name s) @ ''.yaml''"

definition main_project_name :: "args \<Rightarrow> st \<Rightarrow> string option" where
  "main_project_name argv s =
     (case arg_project_name argv of None \<Rightarrow> main_prj_name s | Some p \<Rightarrow> Some p)"

definition main_config_file :: "args \<Rightarrow> st \<Rightarrow> string" where
  "main_config_file argv s =
     (case arg_config_file argv of None \<Rightarrow> main_config_file_name s | Some c \<Rightarrow> c)"

definition main_start :: "st \<Rightarrow> st" where
  "main_start s =
     emit Parse_args
       (emit (Set_env ''CONFIG_FILE'' (main_config_file_name s))
          (s\<lparr>environ := (environ s)(''CONFIG_FILE'' \<mapsto> main_config_file_name s)\<rparr>))"

text \<open>\<open>main\<close>, cut after the call of \<open>check_appid_status\<close>.\<close>

definition main_until_poll :: "world \<Rightarrow> args \<Rightarrow> st \<Rightarrow> (exn + unit) \<times> st" where
  "main_until_poll w argv s =
     then_do (create_project w (main_prj_name s)) (\<lambda>_.
     then_do (set_default_project w (main_prj_name s)) (\<lambda>_.
     then_do (create_appid w (main_prj_name s) ''order-app'') (\<lambda>_.
       check_appid_status w (main_project_name argv s) ''order-app''))) (main_start s)"

text \<open>The command lines among the events of a trace, and the command lines that
  \<open>scaffold_and_update_config\<close> can run.\<close>

fun commands :: "event list \<Rightarrow> string list" where
  "commands [] = []"
| "commands (Cmd c # es) = c # commands es"
| "commands (e # es) = commands es"

definition scaffold_commands :: "string list" where
  "scaffold_commands =
     [''diagrid dev scaffold'', ''rm -rf diagrid-venv'', ''python3 -m venv diagrid-venv'',
      ''./diagrid-venv/bin/pip install pyyaml'', ''./diagrid-venv/bin/python scaffold.py'']"

text \<open>An event that is neither a write to the environment nor the removal of a file; an
  exception that ends the process with status 1; a result that is not an exit with another
  status.\<close>

fun plain :: "event \<Rightarrow> bool" where
  "plain (Set_env k v) = False"
| "plain (Remove p) = False"
| "plain e = True"

fun benign :: "exn \<Rightarrow> bool" where
  "benign (SystemExit n) = (n = 1)"
| "benign e = True"

definition harmless :: "exn + 'a \<Rightarrow> bool" where
  "harmless r = (case r of Inl e \<Rightarrow> benign e | Inr _ \<Rightarrow> True)"

text \<open>\<open>produces P f\<close>: from every state, \<open>f\<close> appends a trace \<open>t\<close> to the events so
  far, leaves the environment as it is, and its result \<open>r\<close> and \<open>t\<close> satisfy \<open>P r t\<close>.\<close>

definition produces ::
  "(exn + 'a \<Rightarrow> event list \<Rightarrow> bool) \<Rightarrow> (st \<Rightarrow> (exn + 'a) \<times> st) \<Rightarrow> bool" where
  "produces P f =
     (\<forall>s. \<exists>t. trace (snd (f s)) = trace s @ t \<and> environ (snd (f s)) = environ s
        \<and> P (fst (f s)) t)"

text \<open>The shapes of the traces of the scaffolding step, of the steps up to the poll, and
  of the config-file block followed by the scaffolding step.\<close>

definition scaffold_trace :: "event list \<Rightarrow> bool" where
  "scaffold_trace t = (list_all plain t \<and> set (commands t) \<subseteq> set scaffold_commands)"

definition provision_trace ::
  "string option \<Rightarrow> string option \<Rightarrow> exn + unit \<Rightarrow> event list \<Rightarrow> bool" where
  "provision_trace prj project r t =
     (list_all plain t \<and> harmless r \<and>
      ((r \<noteq> Inr ()
        \<and> (commands t = [''diagrid project create '' @ fstr prj @ '' --deploy-managed-kv'']
          \<or> commands t = [''diagrid project create '' @ fstr prj @ '' --deploy-managed-kv'',
                        ''diagrid project use '' @ fstr prj]
          \<or> commands t = [''diagrid project create '' @ fstr prj @ '' --deploy-managed-kv'',
                        ''diagrid project use '' @ fstr prj,
                        ''diagrid appid create -p '' @ fstr prj @ '' order-app'']))
       \<or> (\<exists>n. commands t = [''diagrid project create '' @ fstr prj @ '' --deploy-managed-kv'',
                        ''diagrid project use '' @ fstr prj,
                        ''diagrid appid create -p '' @ fstr prj @ '' order-app'']
                   @ replicate (Suc n) (status_command project ''order-app''))))"

definition config_trace :: "world \<Rightarrow> string \<Rightarrow> exn + unit \<Rightarrow> event list \<Rightarrow> bool" where
  "config_trace w cf r t =
     (harmless r \<and>
      (if isfile w cf then
        (t = [Remove cf, Spinner_fail []] \<and> remove_raises w cf \<and> r = Inl (SystemExit 1))
        \<or> (\<exists>t'. t = Remove cf # Cmd ''diagrid dev scaffold'' # t' \<and> scaffold_trace t'
                \<and> \<not> remove_raises w cf)
      else (\<exists>t'. t = Cmd ''diagrid dev scaffold'' # t' \<and> scaffold_trace t')))"

text \<open>More sample worlds: a tool that succeeds with a ready App ID, a machine without
  Node.js where everything else succeeds, a directory that holds the listed files, and a
  start state whose environment names the project \<^verbatim>\<open>demo\<close>.\<close>

definition ready_shell :: "nat \<Rightarrow> string \<Rightarrow> proc" where
  "ready_shell n c = \<lparr>returncode = 0, stdout = ''Status: ready'', stderr = []\<rparr>"

definition no_node_shell :: "nat \<Rightarrow> string \<Rightarrow> proc" where
  "no_node_shell n c =
     (if c = ''node -v'' \<or> c = ''npm -v''
      then \<lparr>returncode = 127, stdout = [], stderr = ''command not found''\<rparr>
      else \<lparr>returncode = 0, stdout = ''Status: ready'', stderr = []\<rparr>)"

definition file_world :: "(nat \<Rightarrow> string \<Rightarrow> proc) \<Rightarrow> string list \<Rightarrow> world" where
  "file_world sh files = \<lparr>shell = sh, isfile = (\<lambda>p. p \<in> set files), path_exists = (\<lambda>_. False),
                           remove_raises = (\<lambda>_. False)\<rparr>"

definition demo_env :: st where
  "demo_env = \<lparr>calls = 0, trace = [], environ = [''QUICKSTART_PROJECT_NAME'' \<mapsto> ''demo'']\<rparr>"

section \<open>Facts about the text primitives\<close>

lemma str_in_sublist: "str_in sub s = sublist sub s"
  by (induction s) (simp_all add: sublist_Cons_right)

lemma split_from_nonempty: "split_from sep piece s \<noteq> []"
  by (induction sep piece s rule: split_from.induct) simp_all

lemma split_from_no_sep:
  "\<not> str_in sep s \<Longrightarrow> split_from sep piece s = [piece @ s]"
  by (induction s arbitrary: piece) auto

lemma prefix_long:
  assumes "length xs \<le> length ys"
  shows "prefix xs (ys @ zs) = prefix xs ys"
proof
  assume "prefix xs (ys @ zs)"
  then consider "prefix xs ys" | us where "xs = ys @ us" "prefix us zs"
    by (auto simp: prefix_append)
  then show "prefix xs ys"
  proof cases
    case 1
    then show ?thesis .
  next
    case 2
    from 2(1) assms have "us = []" by simp
    with 2(1) show ?thesis by simp
  qed
next
  assume "prefix xs ys"
  then show "prefix xs (ys @ zs)" by simp
qed

lemma split_from_first:
  assumes "sep \<noteq> []" and "\<not> str_in sep (a @ butlast sep)"
  shows "split_from sep piece (a @ sep @ b) = (piece @ a) # split_from sep [] b"
  using assms
proof (induction a arbitrary: piece)
  case Nil
  then obtain d ds where sep: "sep = d # ds" by (cases sep) auto
  show ?case by (simp add: sep)
next
  case (Cons c a)
  have np: "\<not> prefix sep ((c # a) @ butlast sep)" and ns: "\<not> str_in sep (a @ butlast sep)"
    using Cons.prems(2) by auto
  have "(c # a) @ sep @ b = ((c # a) @ butlast sep) @ (last sep # b)"
    using Cons.prems(1) by simp
  moreover have "length sep \<le> length ((c # a) @ butlast sep)" by simp
  ultimately have "\<not> prefix sep ((c # a) @ sep @ b)"
    using np prefix_long by metis
  then show ?case using Cons.IH[OF Cons.prems(1) ns] by simp
qed

lemma marker_no_overlap:
  "\<not> str_in ''Status:'' a \<Longrightarrow> \<not> str_in ''Status:'' (a @ ''Status'')"
proof (induction a)
  case Nil
  show ?case by simp
next
  case (Cons c a)
  have np: "\<not> prefix ''Status:'' (c # a)" and ns: "\<not> str_in ''Status:'' a"
    using Cons.prems by auto
  have "\<not> prefix ''Status:'' ((c # a) @ ''Status'')"
  proof
    assume "prefix ''Status:'' ((c # a) @ ''Status'')"
    then obtain us where us: "''Status:'' = (c # a) @ us" "prefix us ''Status''"
      using np by (auto simp: prefix_append)
    from us(1) have "us \<in> {''tatus:'', ''atus:'', ''tus:'', ''us:'', ''s:'', '':'', []}"
      by (auto simp: Cons_eq_append_conv)
    with us(2) have "us = []" by auto
    with us(1) np show False by simp
  qed
  with Cons.IH[OF ns] show ?case by simp
qed

lemma split_marker_second:
  assumes "\<not> str_in ''Status:'' a" and "\<not> str_in ''Status:'' b"
    and "rest = [] \<or> prefix ''Status:'' rest"
  shows "\<exists>more. split (a @ ''Status:'' @ b @ rest) ''Status:'' = a # b # more"
proof -
  have 1: "split_from ''Status:'' [] (a @ ''Status:'' @ b @ rest) = a # split_from ''Status:'' [] (b @ rest)"
    using split_from_first[of "''Status:''" a "[]" "b @ rest"] marker_no_overlap[OF assms(1)] by simp
  have 2: "\<exists>more. split_from ''Status:'' [] (b @ rest) = b # more"
  proof (cases "rest = []")
    case True
    then show ?thesis using split_from_no_sep[OF assms(2), of "[]"] by simp
  next
    case False
    with assms(3) obtain r where r: "rest = ''Status:'' @ r" by (auto simp: prefix_def)
    show ?thesis
      using split_from_first[of "''Status:''" b "[]" r] marker_no_overlap[OF assms(2)]
      by (simp add: r)
  qed
  from 1 2 show ?thesis by (auto simp: split_def)
qed

lemma split_from_two:
  "sep \<noteq> [] \<Longrightarrow> str_in sep s \<Longrightarrow> \<exists>a v more. split_from sep piece s = a # v # more"
proof (induction s arbitrary: piece)
  case Nil
  then show ?case by simp
next
  case (Cons c s)
  show ?case
  proof (cases "prefix sep (c # s)")
    case True
    obtain x xs where "split_from sep [] (drop (length sep - 1) s) = x # xs"
      using split_from_nonempty by (meson list.exhaust)
    with True show ?thesis by simp
  next
    case False
    with Cons show ?thesis by simp
  qed
qed

lemma scan_lines_no_marker:
  "\<forall>line\<in>set lines. \<not> str_in ''Status:'' line \<Longrightarrow> scan_lines lines last_status = Inr (None, last_status)"
  by (induction lines) simp_all

lemma scan_lines_skip:
  "\<forall>line\<in>set pre. \<not> str_in ''Status:'' line \<Longrightarrow> scan_lines (pre @ lines) last_status = scan_lines lines last_status"
  by (induction pre) simp_all

lemma scan_lines_shape:
  "\<exists>status. scan_lines lines last_status = Inr (status, case status of None \<Rightarrow> last_status | Some v \<Rightarrow> Some v)
     \<and> scan_lines lines None = Inr (status, status)"
proof (induction lines)
  case Nil
  show ?case by simp
next
  case (Cons line lines)
  show ?case
  proof (cases "str_in ''Status:'' line")
    case True
    then obtain a v more where "split_from ''Status:'' [] line = a # v # more"
      using split_from_two[of "''Status:''" line "[]"] by auto
    with True show ?thesis by (simp add: split_def)
  next
    case False
    with Cons show ?thesis by simp
  qed
qed

section \<open>Facts about the polling loop\<close>

declare while_attempts.simps [simp del]

lemma scan_lines_observed:
  "scan_lines (split (strip (stdout r)) [CHR 0x0A]) last_status =
     Inr (observed r, last_observed last_status [observed r])"
proof -
  obtain status where
    1: "scan_lines (split (strip (stdout r)) [CHR 0x0A]) last_status =
          Inr (status, case status of None \<Rightarrow> last_status | Some v \<Rightarrow> Some v)"
    and 2: "scan_lines (split (strip (stdout r)) [CHR 0x0A]) None = Inr (status, status)"
    using scan_lines_shape by blast
  from 2 have "observed r = status" by (simp add: observed_def)
  with 1 show ?thesis by (cases status) simp_all
qed

lemma polled_0: "polled p a 0 s = s"
  by (simp add: polled_def)

lemma polled_Suc: "polled p a n (polled p a 1 s) = polled p a (Suc n) s"
  by (simp add: polled_def)

lemma query_polled: "query w p a (polled p a 1 s) i = query w p a s (Suc i)"
  by (simp add: query_def polled_def)

lemma last_observed_Cons:
  "last_observed prev (x # xs) = last_observed (last_observed prev [x]) xs"
  by (cases x) simp_all

lemma one_round:
  assumes "attempt \<le> max_attempts" and "pending (query w p a s 0)"
  shows "while_attempts w p a attempt ls s =
           while_attempts w p a (attempt + 1) (last_observed ls [observed (query w p a s 0)])
             (polled p a 1 s)"
proof -
  let ?r = "shell w (calls s) (status_command p a)"
  from assms(2) have rc: "returncode ?r = 0" and nr: "\<not> is_ready (observed ?r)"
    by (simp_all add: pending_def query_def)
  show ?thesis
    apply (subst while_attempts.simps)
    apply (simp add: assms(1) run_command_def rc scan_lines_observed nr query_def
             polled_def emit_def)
    done
qed

lemma rounds:
  assumes "\<forall>i<n. pending (query w p a s i)" and "attempt + int n \<le> max_attempts + 1"
  shows "while_attempts w p a attempt ls s =
           while_attempts w p a (attempt + int n)
             (last_observed ls (map (\<lambda>i. observed (query w p a s i)) [0..<n]))
             (polled p a n s)"
  using assms
proof (induction n arbitrary: attempt ls s)
  case 0
  show ?case by (simp add: polled_0)
next
  case (Suc n)
  have le: "attempt \<le> max_attempts" using Suc.prems(2) by simp
  have p0: "pending (query w p a s 0)" using Suc.prems(1) by simp
  have rest: "\<forall>i<n. pending (query w p a (polled p a 1 s) i)"
  proof (intro allI impI)
    fix i assume "i < n"
    then have "pending (query w p a s (Suc i))" using Suc.prems(1) by simp
    then show "pending (query w p a (polled p a 1 s) i)" by (simp only: query_polled)
  qed
  have bound: "(attempt + 1) + int n \<le> max_attempts + 1" using Suc.prems(2) by simp
  have "while_attempts w p a attempt ls s =
          while_attempts w p a (attempt + 1) (last_observed ls [observed (query w p a s 0)])
            (polled p a 1 s)"
    by (rule one_round[OF le p0])
  also have "\<dots> = while_attempts w p a (attempt + 1 + int n)
          (last_observed (last_observed ls [observed (query w p a s 0)])
             (map (\<lambda>i. observed (query w p a (polled p a 1 s) i)) [0..<n]))
          (polled p a n (polled p a 1 s))"
    by (rule Suc.IH[OF rest bound])
  also have "\<dots> = while_attempts w p a (attempt + int (Suc n))
          (last_observed ls (map (\<lambda>i. observed (query w p a s i)) [0..<Suc n]))
          (polled p a (Suc n) s)"
    by (simp only: map_upt_Suc query_polled polled_Suc last_observed_Cons[symmetric]
          of_nat_Suc add.assoc add.commute[of 1])
  finally show ?case .
qed

lemma exhausted:
  assumes "\<forall>i<8. pending (query w p a s i)"
  shows "while_attempts w p a 1 None s =
           (Inr (Exhausted (last_observed None (map (\<lambda>i. observed (query w p a s i)) [0..<8]))),
            polled p a 8 s)"
proof -
  have "while_attempts w p a 1 None s =
          while_attempts w p a (1 + int 8)
            (last_observed None (map (\<lambda>i. observed (query w p a s i)) [0..<8])) (polled p a 8 s)"
    by (rule rounds[OF assms]) (simp add: max_attempts_def)
  also have "\<dots> = (Inr (Exhausted (last_observed None (map (\<lambda>i. observed (query w p a s i)) [0..<8]))),
            polled p a 8 s)"
    by (subst while_attempts.simps) (simp add: max_attempts_def)
  finally show ?thesis .
qed

lemma ready_round:
  assumes "attempt \<le> max_attempts" and "returncode (query w p a s 0) = 0"
    and "is_ready (observed (query w p a s 0))"
  shows "while_attempts w p a attempt ls s =
           (Inr Returned,
            s\<lparr>calls := Suc (calls s), trace := trace s @ [Cmd (status_command p a), Spinner_ok]\<rparr>)"
  apply (subst while_attempts.simps)
  using assms
  apply (simp add: run_command_def scan_lines_observed query_def emit_def)
  done

lemma failed_round:
  assumes "attempt \<le> max_attempts" and "returncode (query w p a s 0) \<noteq> 0"
  shows "while_attempts w p a attempt ls s =
           (Inl AttributeError,
            s\<lparr>calls := Suc (calls s), trace := trace s @ [Cmd (status_command p a)]\<rparr>)"
  apply (subst while_attempts.simps)
  using assms
  apply (simp add: run_command_def query_def emit_def)
  done

lemma observed_no_marker:
  "\<forall>line\<in>set (split (strip (stdout r)) [CHR 0x0A]). \<not> str_in ''Status:'' line \<Longrightarrow> observed r = None"
  by (simp add: observed_def scan_lines_no_marker)

lemma last_observed_all_None: "\<forall>x\<in>set xs. x = None \<Longrightarrow> last_observed prev xs = prev"
  by (induction xs) simp_all

lemma check_appid_status_exhausted:
  assumes "\<forall>i<8. pending (query w p a s i)"
  shows "check_appid_status w p a s =
           (Inl (SystemExit 1),
            s\<lparr>calls := calls s + 8,
              trace := trace s @ concat (replicate 8 [Cmd (status_command p a), Sleep 10])
                @ [Spinner_fail ('' '' @ a @ '' is not ready. Once current status ''
                     @ fstr (last_observed None (map (\<lambda>i. observed (query w p a s i)) [0..<8]))
                     @ '' becomes ready, you can proceed.'')]\<rparr>)"
  using assms by (simp add: check_appid_status_def exhausted polled_def emit_def)

lemma str_in_marker: "str_in sep (a @ sep @ b)"
  by (simp add: str_in_sublist)

text \<open>The sample tools, evaluated.\<close>

lemma pending_shell_facts:
  "returncode (pending_shell n c) = 0"
  "observed (pending_shell n c) = Some ''pending''"
  "lower ''pending'' \<noteq> ''ready''"
  "lower ''pending'' \<noteq> ''available''"
proof -
  show "returncode (pending_shell n c) = 0" by (simp add: pending_shell_def)
  have "observed \<lparr>returncode = 0, stdout = ''Status: pending'', stderr = []\<rparr> = Some ''pending''"
    by code_simp
  then show "observed (pending_shell n c) = Some ''pending''" by (simp add: pending_shell_def)
  show "lower ''pending'' \<noteq> ''ready''" by code_simp
  show "lower ''pending'' \<noteq> ''available''" by code_simp
qed

lemma silent_shell_facts:
  "returncode (silent_shell n c) = 0"
  "observed (silent_shell n c) = None"
  "\<not> is_ready None"
proof -
  show "returncode (silent_shell n c) = 0" by (simp add: silent_shell_def)
  have "observed \<lparr>returncode = 0, stdout = [], stderr = []\<rparr> = None" by code_simp
  then show "observed (silent_shell n c) = None" by (simp add: silent_shell_def)
  show "\<not> is_ready None" by (simp add: is_ready_def)
qed

lemma silent_poll:
  "check_appid_status (quiet_world silent_shell) (Some ''demo'') ''order-app'' s0 =
     (Inl (SystemExit 1),
      \<lparr>calls = 8,
       trace = [Cmd ''diagrid appid get order-app -p demo'', Sleep 10,
                Cmd ''diagrid appid get order-app -p demo'', Sleep 10,
                Cmd ''diagrid appid get order-app -p demo'', Sleep 10,
                Cmd ''diagrid appid get order-app -p demo'', Sleep 10,
                Cmd ''diagrid appid get order-app -p demo'', Sleep 10,
                Cmd ''diagrid appid get order-app -p demo'', Sleep 10,
                Cmd ''diagrid appid get order-app -p demo'', Sleep 10,
                Cmd ''diagrid appid get order-app -p demo'', Sleep 10,
                Spinner_fail '' order-app is not ready. Once current status None becomes ready, you can proceed.''],
       environ = Map.empty\<rparr>)"
proof -
  let ?w = "quiet_world silent_shell"
  have q: "\<And>i. query ?w (Some ''demo'') ''order-app'' s0 i =
             silent_shell i ''diagrid appid get order-app -p demo''"
    by (simp add: query_def quiet_world_def s0_def status_command_def fstr_def)
  have h: "\<forall>i<8. pending (query ?w (Some ''demo'') ''order-app'' s0 i)"
    by (simp add: q pending_def silent_shell_facts)
  have r: "replicate 8 x = [x, x, x, x, x, x, x, x]" for x :: "event list"
    by (simp add: numeral_eq_Suc)
  have m: "last_observed None
             (map (\<lambda>i. observed (query ?w (Some ''demo'') ''order-app'' s0 i)) [0..<8]) = None"
    by (simp add: q silent_shell_facts last_observed_all_None)
  show ?thesis
    using check_appid_status_exhausted[OF h] unfolding m
    by (simp add: r s0_def status_command_def fstr_def)
qed

section \<open>Facts about the steps of main\<close>

lemma commands_append: "commands (xs @ ys) = commands xs @ commands ys"
  by (induction xs rule: commands.induct) simp_all

lemma then_do_assoc: "then_do (then_do m f) g = then_do m (\<lambda>v. then_do (f v) g)"
  by (rule ext) (simp add: then_do_def split: prod.splits sum.splits)

lemma producesD:
  assumes "produces P f"
  obtains t where "trace (snd (f s)) = trace s @ t" "environ (snd (f s)) = environ s"
    "P (fst (f s)) t"
  using assms unfolding produces_def by blast

lemma produces_weaken: "produces P f \<Longrightarrow> (\<And>r t. P r t \<Longrightarrow> Q r t) \<Longrightarrow> produces Q f"
  unfolding produces_def by blast

lemma produces_then_do:
  assumes "produces P m" and "\<And>v. produces (Q v) (f v)"
  shows "produces (\<lambda>r t. (\<exists>e. r = Inl e \<and> P (Inl e) t)
                     \<or> (\<exists>v t1 t2. t = t1 @ t2 \<and> P (Inr v) t1 \<and> Q v r t2)) (then_do m f)"
  unfolding produces_def
proof
  fix s
  obtain t1 where m: "trace (snd (m s)) = trace s @ t1" "environ (snd (m s)) = environ s"
    "P (fst (m s)) t1"
    using assms(1) by (rule producesD)
  show "\<exists>t. trace (snd (then_do m f s)) = trace s @ t \<and> environ (snd (then_do m f s)) = environ s
          \<and> ((\<exists>e. fst (then_do m f s) = Inl e \<and> P (Inl e) t)
              \<or> (\<exists>v t1 t2. t = t1 @ t2 \<and> P (Inr v) t1 \<and> Q v (fst (then_do m f s)) t2))"
  proof (cases "m s")
    case (Pair r s')
    show ?thesis
    proof (cases r)
      case (Inl e)
      with Pair m show ?thesis by (auto simp: then_do_def)
    next
      case (Inr v)
      obtain t2 where f: "trace (snd (f v s')) = trace s' @ t2" "environ (snd (f v s')) = environ s'"
        "Q v (fst (f v s')) t2"
        using assms(2) by (rule producesD)
      from Pair Inr m f show ?thesis
        by (intro exI[of _ "t1 @ t2"]) (auto simp: then_do_def)
    qed
  qed
qed

lemma produces_run_command:
  "produces (\<lambda>r t. t = [Cmd c] \<and> harmless r) (run_command w c b)"
  by (simp add: produces_def harmless_def run_command_def emit_def Let_def)

lemma produces_create_project:
  "produces (\<lambda>r t.
       (r = Inr () \<and> t = [Cmd (''diagrid project create '' @ fstr pn @ '' --deploy-managed-kv''), Spinner_ok])
       \<or> (r = Inl (SystemExit 1)
           \<and> t = [Cmd (''diagrid project create '' @ fstr pn @ '' --deploy-managed-kv''),
                   Spinner_fail '' Failed to create project'']))
     (create_project w pn)"
  by (simp add: produces_def create_project_def run_command_def emit_def Let_def)

lemma produces_set_default_project:
  "produces (\<lambda>r t.
       (r = Inr () \<and> t = [Cmd (''diagrid project use '' @ fstr pn), Spinner_ok])
       \<or> (r = Inl (SystemExit 1)
           \<and> t = [Cmd (''diagrid project use '' @ fstr pn), Spinner_fail '' Failed to set default project'']))
     (set_default_project w pn)"
  by (simp add: produces_def set_default_project_def run_command_def emit_def Let_def)

lemma produces_create_appid:
  "produces (\<lambda>r t.
       (r = Inr () \<and> t = [Cmd (''diagrid appid create -p '' @ fstr pn @ '' '' @ a), Spinner_ok])
       \<or> (r = Inl (SystemExit 1)
           \<and> t = [Cmd (''diagrid appid create -p '' @ fstr pn @ '' '' @ a),
                   Spinner_fail ('' Failed to create App ID '' @ a)]))
     (create_appid w pn a)"
  by (simp add: produces_def create_appid_def run_command_def emit_def Let_def)

lemma while_attempts_frame:
  "\<exists>t n. trace (snd (while_attempts w p a attempt ls s)) = trace s @ t
      \<and> environ (snd (while_attempts w p a attempt ls s)) = environ s
      \<and> harmless (fst (while_attempts w p a attempt ls s))
      \<and> list_all plain t
      \<and> commands t = replicate n (status_command p a)
      \<and> (attempt \<le> max_attempts \<longrightarrow> 0 < n)"
proof (induction "nat (max_attempts + 1 - attempt)" arbitrary: attempt ls s)
  case 0
  then have gt: "\<not> attempt \<le> max_attempts" by simp
  then have "while_attempts w p a attempt ls s = (Inr (Exhausted ls), s)"
    by (subst while_attempts.simps) simp
  with gt show ?case by (simp add: harmless_def)
next
  case (Suc k)
  then have le: "attempt \<le> max_attempts" by simp
  consider (failed) "returncode (query w p a s 0) \<noteq> 0"
    | (ready) "returncode (query w p a s 0) = 0" "is_ready (observed (query w p a s 0))"
    | (pending) "pending (query w p a s 0)"
    by (auto simp: pending_def)
  then show ?case
  proof cases
    case failed
    show ?thesis
      by (rule exI[of _ "[Cmd (status_command p a)]"], rule exI[of _ 1])
         (simp add: failed_round[OF le failed] harmless_def le)
  next
    case ready
    show ?thesis
      by (rule exI[of _ "[Cmd (status_command p a), Spinner_ok]"], rule exI[of _ 1])
         (simp add: ready_round[OF le ready] harmless_def le)
  next
    case pending
    let ?ls = "last_observed ls [observed (query w p a s 0)]"
    have eq: "while_attempts w p a attempt ls s =
                while_attempts w p a (attempt + 1) ?ls (polled p a 1 s)"
      by (rule one_round[OF le pending])
    have k: "k = nat (max_attempts + 1 - (attempt + 1))" using Suc.hyps(2) by simp
    obtain t n where t:
      "trace (snd (while_attempts w p a (attempt + 1) ?ls (polled p a 1 s))) =
         trace (polled p a 1 s) @ t"
      "environ (snd (while_attempts w p a (attempt + 1) ?ls (polled p a 1 s))) =
         environ (polled p a 1 s)"
      "harmless (fst (while_attempts w p a (attempt + 1) ?ls (polled p a 1 s)))"
      "list_all plain t" "commands t = replicate n (status_command p a)"
      using Suc.hyps(1)[OF k] by blast
    have pt: "trace (polled p a 1 s) = trace s @ [Cmd (status_command p a), Sleep 10]"
      "environ (polled p a 1 s) = environ s"
      by (simp_all add: polled_def)
    show ?thesis
      apply (rule exI[of _ "[Cmd (status_command p a), Sleep 10] @ t"], rule exI[of _ "Suc n"])
      apply (simp only: eq t(1,2) pt)
      using t(3,4,5) apply simp
      done
  qed
qed

lemma produces_check_appid_status:
  "produces (\<lambda>r t. harmless r \<and> list_all plain t
                \<and> (\<exists>n. commands t = replicate (Suc n) (status_command p a)))
     (check_appid_status w p a)"
  unfolding produces_def
proof
  fix s
  obtain t n where t:
    "trace (snd (while_attempts w p a 1 None s)) = trace s @ t"
    "environ (snd (while_attempts w p a 1 None s)) = environ s"
    "harmless (fst (while_attempts w p a 1 None s))"
    "list_all plain t" "commands t = replicate n (status_command p a)"
    "1 \<le> max_attempts \<longrightarrow> 0 < n"
    using while_attempts_frame[of w p a 1 None s] by blast
  then obtain m where n: "n = Suc m" by (cases n) (simp_all add: max_attempts_def)
  obtain r s' where w: "while_attempts w p a 1 None s = (r, s')" by (cases "while_attempts w p a 1 None s")
  show "\<exists>t. trace (snd (check_appid_status w p a s)) = trace s @ t
          \<and> environ (snd (check_appid_status w p a s)) = environ s
          \<and> harmless (fst (check_appid_status w p a s))
          \<and> list_all plain t \<and> (\<exists>n. commands t = replicate (Suc n) (status_command p a))"
  proof (cases r)
    case (Inl e)
    with w t n show ?thesis
      by (intro exI[of _ t]) (simp add: check_appid_status_def harmless_def)
  next
    case (Inr x)
    show ?thesis
    proof (cases x)
      case Returned
      with Inr w t n show ?thesis
        by (intro exI[of _ t]) (simp add: check_appid_status_def harmless_def)
    next
      case (Exhausted l)
      with Inr w t n show ?thesis
        by (intro exI[of _ "t @ [Spinner_fail ('' '' @ a @ '' is not ready. Once current status ''
                   @ fstr l @ '' becomes ready, you can proceed.'')]"])
           (simp add: check_appid_status_def harmless_def emit_def commands_append)
    qed
  qed
qed

lemma scaffold_trace_append: "scaffold_trace t1 \<Longrightarrow> scaffold_trace t2 \<Longrightarrow> scaffold_trace (t1 @ t2)"
  by (simp add: scaffold_trace_def commands_append)

lemma produces_scaffold_step:
  assumes "produces (\<lambda>r t. scaffold_trace t \<and> harmless r) m"
    and "\<And>v. produces (\<lambda>r t. scaffold_trace t \<and> harmless r) (f v)"
  shows "produces (\<lambda>r t. scaffold_trace t \<and> harmless r) (then_do m f)"
proof -
  have "produces (\<lambda>r t. (\<exists>e. r = Inl e \<and> (scaffold_trace t \<and> harmless (Inl e :: exn + 'a)))
                     \<or> (\<exists>v t1 t2. t = t1 @ t2 \<and> (scaffold_trace t1 \<and> harmless (Inr v :: exn + 'a))
                           \<and> (scaffold_trace t2 \<and> harmless r))) (then_do m f)"
    by (rule produces_then_do[OF assms(1)]) (rule assms(2))
  then show ?thesis
    by (rule produces_weaken) (auto simp: harmless_def scaffold_trace_append)
qed

lemma produces_scaffold_rest:
  "produces (\<lambda>r t. scaffold_trace t \<and> harmless r)
     (then_do (if scaffold_output = None then error ''Failed to prepare dev config file''
              else (\<lambda>s. (Inr (), s))) (\<lambda>_.
      then_do (if path_exists w env_name
              then run_command w (''rm -rf '' @ env_name) True
              else (\<lambda>s. (Inr None, s))) (\<lambda>_.
      then_do (run_command w (''python3 -m venv '' @ env_name) True) (\<lambda>_.
      then_do (run_command w (''./'' @ env_name @ ''/bin/pip install pyyaml'') True) (\<lambda>_.
      then_do (run_command w (''./'' @ env_name @ ''/bin/python scaffold.py'') True) (\<lambda>_.
        (\<lambda>s. (Inr (), emit Spinner_ok s))))))))"
proof -
  have e: "produces (\<lambda>r t. scaffold_trace t \<and> harmless r) (error m :: st \<Rightarrow> (exn + unit) \<times> st)" for m
    by (simp add: produces_def error_def emit_def scaffold_trace_def harmless_def)
  have k: "produces (\<lambda>r t. scaffold_trace t \<and> harmless r) (\<lambda>s. (Inr v, s))" for v :: 'b
    by (simp add: produces_def scaffold_trace_def harmless_def)
  have o: "produces (\<lambda>r t. scaffold_trace t \<and> harmless r) (\<lambda>s. (Inr (), emit Spinner_ok s))"
    by (simp add: produces_def emit_def scaffold_trace_def harmless_def)
  have c: "produces (\<lambda>r t. scaffold_trace t \<and> harmless r) (run_command w c b)"
    if "c \<in> set scaffold_commands" for c b
    by (rule produces_weaken[OF produces_run_command]) (use that in \<open>simp add: scaffold_trace_def\<close>)
  show ?thesis
    by (intro produces_scaffold_step)
       (auto intro!: e k o c simp: scaffold_commands_def env_name_def)
qed

lemma produces_scaffold:
  "produces (\<lambda>r t. harmless r \<and> (\<exists>t'. t = Cmd ''diagrid dev scaffold'' # t' \<and> scaffold_trace t'))
     (scaffold_and_update_config w cf)"
  unfolding scaffold_and_update_config_def
  by (rule produces_weaken[OF produces_then_do[OF produces_run_command produces_scaffold_rest]])
     (auto simp: scaffold_trace_def harmless_def)

lemma main_unfold:
  "main w argv s =
     then_do (create_project w (main_prj_name s)) (\<lambda>_.
     then_do (set_default_project w (main_prj_name s)) (\<lambda>_.
     then_do (create_appid w (main_prj_name s) ''order-app'') (\<lambda>_.
     then_do (check_appid_status w (main_project_name argv s) ''order-app'') (\<lambda>_.
     then_do (remove_existing w (main_config_file argv s)) (\<lambda>_.
       scaffold_and_update_config w (main_config_file argv s)))))) (main_start s)"
  unfolding main_def Let_def main_prj_name_def main_config_file_name_def
    main_project_name_def main_config_file_def main_start_def
  by (rule refl)

lemma main_after_poll:
  "main w argv s =
     (case main_until_poll w argv s of
        (Inl e, s') \<Rightarrow> (Inl e, s')
      | (Inr _, s') \<Rightarrow>
          then_do (remove_existing w (main_config_file argv s)) (\<lambda>_.
            scaffold_and_update_config w (main_config_file argv s)) s')"
  by (simp add: main_unfold main_until_poll_def then_do_def split: prod.splits sum.splits)

lemma main_start_trace:
  "trace (main_start s) = trace s @ [Set_env ''CONFIG_FILE'' (main_config_file_name s), Parse_args]"
  "environ (main_start s) = (environ s)(''CONFIG_FILE'' \<mapsto> main_config_file_name s)"
  by (simp_all add: main_start_def emit_def)

lemma produces_provision:
  "produces (provision_trace prj project)
     (then_do (create_project w prj) (\<lambda>_.
      then_do (set_default_project w prj) (\<lambda>_.
      then_do (create_appid w prj ''order-app'') (\<lambda>_.
        check_appid_status w project ''order-app''))))"
  by (rule produces_weaken[OF produces_then_do[OF produces_create_project
        produces_then_do[OF produces_set_default_project
          produces_then_do[OF produces_create_appid produces_check_appid_status]]]])
     (auto simp: provision_trace_def commands_append harmless_def)

lemma main_until_poll_frame:
  obtains t where
    "trace (snd (main_until_poll w argv s)) =
       trace s @ Set_env ''CONFIG_FILE'' (main_config_file_name s) # Parse_args # t"
    "environ (snd (main_until_poll w argv s)) = (environ s)(''CONFIG_FILE'' \<mapsto> main_config_file_name s)"
    "provision_trace (main_prj_name s) (main_project_name argv s) (fst (main_until_poll w argv s)) t"
proof -
  obtain t where
    "trace (snd (main_until_poll w argv s)) = trace (main_start s) @ t"
    "environ (snd (main_until_poll w argv s)) = environ (main_start s)"
    "provision_trace (main_prj_name s) (main_project_name argv s) (fst (main_until_poll w argv s)) t"
    unfolding main_until_poll_def
    using produces_provision by (rule producesD)
  then show ?thesis
    by (intro that[of t]) (simp_all add: main_start_trace)
qed

lemma produces_config:
  "produces (config_trace w cf)
     (then_do (remove_existing w cf) (\<lambda>_. scaffold_and_update_config w cf))"
  unfolding produces_def
proof
  fix s
  let ?f = "then_do (remove_existing w cf) (\<lambda>_. scaffold_and_update_config w cf)"
  have sc: "\<exists>t'. trace (snd (scaffold_and_update_config w cf s')) =
        trace s' @ Cmd ''diagrid dev scaffold'' # t' \<and> environ (snd (scaffold_and_update_config w cf s')) = environ s'
        \<and> harmless (fst (scaffold_and_update_config w cf s')) \<and> scaffold_trace t'" for s'
    using produces_scaffold[of w cf] unfolding produces_def by blast
  show "\<exists>t. trace (snd (?f s)) = trace s @ t \<and> environ (snd (?f s)) = environ s
          \<and> config_trace w cf (fst (?f s)) t"
  proof (cases "isfile w cf")
    case False
    then have "?f s = scaffold_and_update_config w cf s"
      by (simp add: then_do_def remove_existing_def)
    with sc[of s] False show ?thesis by (auto simp: config_trace_def)
  next
    case True
    show ?thesis
    proof (cases "remove_raises w cf")
      case True
      with \<open>isfile w cf\<close> show ?thesis
        by (intro exI[of _ "[Remove cf, Spinner_fail []]"])
           (simp add: then_do_def remove_existing_def error_def emit_def harmless_def config_trace_def)
    next
      case False
      with True have "?f s = scaffold_and_update_config w cf (emit (Remove cf) s)"
        by (simp add: then_do_def remove_existing_def)
      with sc[of "emit (Remove cf) s"] True False show ?thesis
        by (auto simp: config_trace_def emit_def)
    qed
  qed
qed

lemma main_grouped:
  "main w argv s =
     then_do
       (then_do (create_project w (main_prj_name s)) (\<lambda>_.
        then_do (set_default_project w (main_prj_name s)) (\<lambda>_.
        then_do (create_appid w (main_prj_name s) ''order-app'') (\<lambda>_.
          check_appid_status w (main_project_name argv s) ''order-app''))))
       (\<lambda>_. then_do (remove_existing w (main_config_file argv s)) (\<lambda>_.
               scaffold_and_update_config w (main_config_file argv s)))
       (main_start s)"
  by (simp add: main_unfold then_do_assoc)

lemma main_frame:
  obtains t where
    "trace (snd (main w argv s)) =
       trace s @ Set_env ''CONFIG_FILE'' (main_config_file_name s) # Parse_args # t"
    "environ (snd (main w argv s)) = (environ s)(''CONFIG_FILE'' \<mapsto> main_config_file_name s)"
    "(fst (main w argv s) \<noteq> Inr ()
        \<and> provision_trace (main_prj_name s) (main_project_name argv s) (fst (main w argv s)) t)
     \<or> (\<exists>t1 t2. t = t1 @ t2
          \<and> provision_trace (main_prj_name s) (main_project_name argv s) (Inr ()) t1
          \<and> config_trace w (main_config_file argv s) (fst (main w argv s)) t2)"
proof -
  obtain t where t:
    "trace (snd (main w argv s)) = trace (main_start s) @ t"
    "environ (snd (main w argv s)) = environ (main_start s)"
    "(\<exists>e. fst (main w argv s) = Inl e
        \<and> provision_trace (main_prj_name s) (main_project_name argv s) (Inl e) t)
     \<or> (\<exists>v t1 t2. t = t1 @ t2
          \<and> provision_trace (main_prj_name s) (main_project_name argv s) (Inr v) t1
          \<and> config_trace w (main_config_file argv s) (fst (main w argv s)) t2)"
    unfolding main_grouped
    using produces_then_do[OF produces_provision produces_config] by (rule producesD)
  show ?thesis
    by (rule that[of t]) (use t in \<open>auto simp: main_start_trace\<close>)
qed

lemma plain_no_remove: "list_all plain t \<Longrightarrow> Remove p \<notin> set t"
  by (induction t) auto

lemma plain_no_set_env: "list_all plain t \<Longrightarrow> Set_env k v \<notin> set t"
  by (induction t) auto

lemma main_exit_status:
  "exit_status (fst (main w argv s)) = (if fst (main w argv s) = Inr () then 0 else 1)"
proof -
  obtain t where
    "(fst (main w argv s) \<noteq> Inr ()
        \<and> provision_trace (main_prj_name s) (main_project_name argv s) (fst (main w argv s)) t)
     \<or> (\<exists>t1 t2. t = t1 @ t2
          \<and> provision_trace (main_prj_name s) (main_project_name argv s) (Inr ()) t1
          \<and> config_trace w (main_config_file argv s) (fst (main w argv s)) t2)"
    by (rule main_frame)
  then have "harmless (fst (main w argv s))"
    by (auto simp: provision_trace_def config_trace_def)
  then show ?thesis
    by (auto simp: harmless_def exit_status_def split: sum.splits exn.splits)
qed

lemma check_appid_status_ready_first:
  assumes "returncode (query w p a s 0) = 0" and "is_ready (observed (query w p a s 0))"
  shows "check_appid_status w p a s =
           (Inr (), s\<lparr>calls := Suc (calls s),
                      trace := trace s @ [Cmd (status_command p a), Spinner_ok]\<rparr>)"
proof -
  have "while_attempts w p a 1 None s =
          (Inr Returned, s\<lparr>calls := Suc (calls s),
                           trace := trace s @ [Cmd (status_command p a), Spinner_ok]\<rparr>)"
    by (rule ready_round[OF _ assms]) (simp add: max_attempts_def)
  then show ?thesis by (simp add: check_appid_status_def)
qed

lemma main_until_poll_success:
  assumes "returncode (shell w (calls s)
             (''diagrid project create '' @ fstr (main_prj_name s) @ '' --deploy-managed-kv'')) = 0"
    and "returncode (shell w (Suc (calls s)) (''diagrid project use '' @ fstr (main_prj_name s))) = 0"
    and "returncode (shell w (Suc (Suc (calls s)))
             (''diagrid appid create -p '' @ fstr (main_prj_name s) @ '' order-app'')) = 0"
    and "returncode (shell w (Suc (Suc (Suc (calls s))))
             (status_command (main_project_name argv s) ''order-app'')) = 0"
    and "is_ready (observed (shell w (Suc (Suc (Suc (calls s))))
             (status_command (main_project_name argv s) ''order-app'')))"
  shows "main_until_poll w argv s =
           (Inr (),
            s\<lparr>calls := calls s + 4,
              trace := trace s @
                [Set_env ''CONFIG_FILE'' (main_config_file_name s), Parse_args,
                 Cmd (''diagrid project create '' @ fstr (main_prj_name s) @ '' --deploy-managed-kv''),
                 Spinner_ok,
                 Cmd (''diagrid project use '' @ fstr (main_prj_name s)), Spinner_ok,
                 Cmd (''diagrid appid create -p '' @ fstr (main_prj_name s) @ '' order-app''),
                 Spinner_ok,
                 Cmd (status_command (main_project_name argv s) ''order-app''), Spinner_ok],
              environ := (environ s)(''CONFIG_FILE'' \<mapsto> main_config_file_name s)\<rparr>)"
proof -
  let ?s1 = "main_start s"
  have c: "calls ?s1 = calls s" by (simp add: main_start_def emit_def)
  have 1: "create_project w (main_prj_name s) ?s1 =
      (Inr (), ?s1\<lparr>calls := Suc (calls s), trace := trace ?s1 @
         [Cmd (''diagrid project create '' @ fstr (main_prj_name s) @ '' --deploy-managed-kv''), Spinner_ok]\<rparr>)"
    (is "_ = (_, ?s2)")
    using assms(1) by (simp add: create_project_def run_command_def emit_def Let_def c)
  have 2: "set_default_project w (main_prj_name s) ?s2 =
      (Inr (), ?s2\<lparr>calls := Suc (Suc (calls s)), trace := trace ?s2 @
         [Cmd (''diagrid project use '' @ fstr (main_prj_name s)), Spinner_ok]\<rparr>)"
    (is "_ = (_, ?s3)")
    using assms(2) by (simp add: set_default_project_def run_command_def emit_def Let_def)
  have 3: "create_appid w (main_prj_name s) ''order-app'' ?s3 =
      (Inr (), ?s3\<lparr>calls := Suc (Suc (Suc (calls s))), trace := trace ?s3 @
         [Cmd (''diagrid appid create -p '' @ fstr (main_prj_name s) @ '' order-app''), Spinner_ok]\<rparr>)"
    (is "_ = (_, ?s4)")
    using assms(3) by (simp add: create_appid_def run_command_def emit_def Let_def)
  have 4: "check_appid_status w (main_project_name argv s) ''order-app'' ?s4 =
      (Inr (), ?s4\<lparr>calls := Suc (calls ?s4), trace := trace ?s4 @
         [Cmd (status_command (main_project_name argv s) ''order-app''), Spinner_ok]\<rparr>)"
    by (rule check_appid_status_ready_first) (simp_all add: query_def assms(4,5))
  show ?thesis
    unfolding main_until_poll_def
    apply (simp only: then_do_def 1 2 3 4 prod.case sum.case)
    apply (simp add: main_start_def emit_def)
    done
qed

lemma scaffold_success:
  assumes "\<not> path_exists w env_name"
    and "returncode (shell w (calls s) ''diagrid dev scaffold'') = 0"
    and "returncode (shell w (Suc (calls s)) ''python3 -m venv diagrid-venv'') = 0"
    and "returncode (shell w (Suc (Suc (calls s))) ''./diagrid-venv/bin/pip install pyyaml'') = 0"
    and "returncode (shell w (Suc (Suc (Suc (calls s)))) ''./diagrid-venv/bin/python scaffold.py'') = 0"
  shows "scaffold_and_update_config w cf s =
           (Inr (),
            s\<lparr>calls := calls s + 4,
              trace := trace s @
                [Cmd ''diagrid dev scaffold'', Cmd ''python3 -m venv diagrid-venv'',
                 Cmd ''./diagrid-venv/bin/pip install pyyaml'',
                 Cmd ''./diagrid-venv/bin/python scaffold.py'', Spinner_ok]\<rparr>)"
  using assms
  by (simp add: scaffold_and_update_config_def then_do_def run_command_def emit_def Let_def
        env_name_def)

lemma main_success:
  assumes "\<And>n. returncode (shell w n
             (''diagrid project create '' @ fstr (main_prj_name s) @ '' --deploy-managed-kv'')) = 0"
    and "\<And>n. returncode (shell w n (''diagrid project use '' @ fstr (main_prj_name s))) = 0"
    and "\<And>n. returncode (shell w n
             (''diagrid appid create -p '' @ fstr (main_prj_name s) @ '' order-app'')) = 0"
    and "\<And>n. returncode (shell w n (status_command (main_project_name argv s) ''order-app'')) = 0"
    and "\<And>n. is_ready (observed (shell w n (status_command (main_project_name argv s) ''order-app'')))"
    and "\<And>n. returncode (shell w n ''diagrid dev scaffold'') = 0"
    and "\<And>n. returncode (shell w n ''python3 -m venv diagrid-venv'') = 0"
    and "\<And>n. returncode (shell w n ''./diagrid-venv/bin/pip install pyyaml'') = 0"
    and "\<And>n. returncode (shell w n ''./diagrid-venv/bin/python scaffold.py'') = 0"
    and "\<not> path_exists w env_name"
    and "\<not> remove_raises w (main_config_file argv s)"
  shows "main w argv s =
           (Inr (),
            s\<lparr>calls := calls s + 8,
              trace := trace s @
                [Set_env ''CONFIG_FILE'' (main_config_file_name s), Parse_args,
                 Cmd (''diagrid project create '' @ fstr (main_prj_name s) @ '' --deploy-managed-kv''),
                 Spinner_ok,
                 Cmd (''diagrid project use '' @ fstr (main_prj_name s)), Spinner_ok,
                 Cmd (''diagrid appid create -p '' @ fstr (main_prj_name s) @ '' order-app''),
                 Spinner_ok,
                 Cmd (status_command (main_project_name argv s) ''order-app''), Spinner_ok]
                @ (if isfile w (main_config_file argv s) then [Remove (main_config_file argv s)] else [])
                @ [Cmd ''diagrid dev scaffold'', Cmd ''python3 -m venv diagrid-venv'',
                   Cmd ''./diagrid-venv/bin/pip install pyyaml'',
                   Cmd ''./diagrid-venv/bin/python scaffold.py'', Spinner_ok],
              environ := (environ s)(''CONFIG_FILE'' \<mapsto> main_config_file_name s)\<rparr>)"
proof -
  let ?cf = "main_config_file argv s"
  have p: "main_until_poll w argv s =
           (Inr (),
            s\<lparr>calls := calls s + 4,
              trace := trace s @
                [Set_env ''CONFIG_FILE'' (main_config_file_name s), Parse_args,
                 Cmd (''diagrid project create '' @ fstr (main_prj_name s) @ '' --deploy-managed-kv''),
                 Spinner_ok,
                 Cmd (''diagrid project use '' @ fstr (main_prj_name s)), Spinner_ok,
                 Cmd (''diagrid appid create -p '' @ fstr (main_prj_name s) @ '' order-app''),
                 Spinner_ok,
                 Cmd (status_command (main_project_name argv s) ''order-app''), Spinner_ok],
              environ := (environ s)(''CONFIG_FILE'' \<mapsto> main_config_file_name s)\<rparr>)"
    (is "_ = (_, ?s3)")
    by (rule main_until_poll_success) (rule assms)+
  have r: "remove_existing w ?cf ?s3 =
             (Inr (), if isfile w ?cf then emit (Remove ?cf) ?s3 else ?s3)"
    (is "_ = (_, ?s4)")
    using assms(11) by (simp add: remove_existing_def)
  have f: "scaffold_and_update_config w ?cf ?s4 =
           (Inr (),
            ?s4\<lparr>calls := calls ?s4 + 4,
              trace := trace ?s4 @
                [Cmd ''diagrid dev scaffold'', Cmd ''python3 -m venv diagrid-venv'',
                 Cmd ''./diagrid-venv/bin/pip install pyyaml'',
                 Cmd ''./diagrid-venv/bin/python scaffold.py'', Spinner_ok]\<rparr>)"
    by (rule scaffold_success) (rule assms)+
  show ?thesis
    apply (simp only: main_after_poll p prod.case sum.case then_do_def r f)
    apply (simp add: emit_def)
    done
qed

lemma ready_shell_facts:
  "returncode (ready_shell n c) = 0"
  "is_ready (observed (ready_shell n c))"
proof -
  show "returncode (ready_shell n c) = 0" by (simp add: ready_shell_def)
  have "is_ready (observed \<lparr>returncode = 0, stdout = ''Status: ready'', stderr = []\<rparr>)"
    by code_simp
  then show "is_ready (observed (ready_shell n c))" by (simp add: ready_shell_def)
qed

lemma demo_env_facts:
  "fstr (main_prj_name demo_env) = ''demo''"
  "main_config_file_name demo_env = ''dev-demo.yaml''"
  "trace demo_env = []" "calls demo_env = 0"
  by (simp_all add: main_prj_name_def main_config_file_name_def demo_env_def fstr_def)

lemma main_ready_shell:
  "main (file_world ready_shell files) argv demo_env =
     (Inr (),
      demo_env\<lparr>calls := 8,
        trace :=
          [Set_env ''CONFIG_FILE'' ''dev-demo.yaml'', Parse_args,
           Cmd ''diagrid project create demo --deploy-managed-kv'', Spinner_ok,
           Cmd ''diagrid project use demo'', Spinner_ok,
           Cmd ''diagrid appid create -p demo order-app'', Spinner_ok,
           Cmd (status_command (main_project_name argv demo_env) ''order-app''), Spinner_ok]
          @ (if main_config_file argv demo_env \<in> set files
             then [Remove (main_config_file argv demo_env)] else [])
          @ [Cmd ''diagrid dev scaffold'', Cmd ''python3 -m venv diagrid-venv'',
             Cmd ''./diagrid-venv/bin/pip install pyyaml'',
             Cmd ''./diagrid-venv/bin/python scaffold.py'', Spinner_ok],
        environ := (environ demo_env)(''CONFIG_FILE'' \<mapsto> ''dev-demo.yaml'')\<rparr>)"
  using main_success[of "file_world ready_shell files" demo_env argv]
  by (simp add: file_world_def ready_shell_facts demo_env_facts)

lemma no_node_shell_facts:
  "c \<noteq> ''node -v'' \<Longrightarrow> c \<noteq> ''npm -v'' \<Longrightarrow> returncode (no_node_shell n c) = 0"
  "c \<noteq> ''node -v'' \<Longrightarrow> c \<noteq> ''npm -v'' \<Longrightarrow> is_ready (observed (no_node_shell n c))"
  "returncode (no_node_shell n ''node -v'') = 127"
  "returncode (no_node_shell n ''npm -v'') = 127"
proof -
  have "is_ready (observed \<lparr>returncode = 0, stdout = ''Status: ready'', stderr = []\<rparr>)"
    by code_simp
  then show "c \<noteq> ''node -v'' \<Longrightarrow> c \<noteq> ''npm -v'' \<Longrightarrow> is_ready (observed (no_node_shell n c))"
    by (simp add: no_node_shell_def)
qed (simp_all add: no_node_shell_def)

section \<open>The claims\<close>

text \<open>
  C1. The claim: when every status query fails, the poller does not abort on the failed
  query, runs all 8 attempts and ends by the timeout path. The code does otherwise:
  \<open>run_command\<close> without \<open>check\<close> returns \<^verbatim>\<open>None\<close> for a failed command, and
  \<open>check_appid_status\<close> calls \<^verbatim>\<open>.split\<close> on it. With a tool that fails every
  command the poll ends after one query with an uncaught \<^verbatim>\<open>AttributeError\<close>, without a
  delay and without the timeout message.
\<close>

theorem query_failure_aborts:
  "check_appid_status (quiet_world failing_shell) p a s0 =
     (Inl AttributeError, \<lparr>calls = 1, trace = [Cmd (status_command p a)], environ = Map.empty\<rparr>)"
proof -
  have "returncode (query (quiet_world failing_shell) p a s0 0) \<noteq> 0"
    by (simp add: query_def quiet_world_def failing_shell_def)
  then have "while_attempts (quiet_world failing_shell) p a 1 None s0 =
      (Inl AttributeError, s0\<lparr>calls := Suc (calls s0), trace := trace s0 @ [Cmd (status_command p a)]\<rparr>)"
    by (intro failed_round) (simp_all add: max_attempts_def)
  then show ?thesis by (simp add: check_appid_status_def s0_def)
qed

text \<open>
  C3. A parsed status whose lowercase form is \<^verbatim>\<open>ready\<close> or \<^verbatim>\<open>available\<close> ends the poll
  with success in the attempt that observes it: when the \<open>k\<close> attempts before it
  answered with a status that is not ready and attempt \<open>k + 1\<close> (one of the 8) reads such
  a status, \<open>check_appid_status\<close> returns after exactly \<open>k + 1\<close> queries and \<open>k\<close>
  delays; the last query is followed by the success mark, not by a delay or another
  query. The witness is a status \<^verbatim>\<open>Ready\<close> that first appears at the third query.
\<close>

theorem ready_returns_at_once:
  assumes "k < 8"
    and "\<forall>i<k. returncode (query w p a s i) = 0 \<and> \<not> is_ready (observed (query w p a s i))"
    and "returncode (query w p a s k) = 0"
    and "observed (query w p a s k) = Some v"
    and "lower v = ''ready'' \<or> lower v = ''available''"
  shows "check_appid_status w p a s =
           (Inr (),
            s\<lparr>calls := calls s + Suc k,
              trace := trace s @ concat (replicate k [Cmd (status_command p a), Sleep 10])
                         @ [Cmd (status_command p a), Spinner_ok]\<rparr>)"
proof -
  have pend: "\<forall>i<k. pending (query w p a s i)" using assms(2) by (simp add: pending_def)
  have bound: "1 + int k \<le> max_attempts + 1" using assms(1) by (simp add: max_attempts_def)
  have le: "1 + int k \<le> max_attempts" using assms(1) by (simp add: max_attempts_def)
  have qk: "query w p a (polled p a k s) 0 = query w p a s k"
    by (simp add: query_def polled_def)
  have "v \<noteq> []" using assms(5) by (auto simp: lower_def)
  then have rdy: "is_ready (observed (query w p a (polled p a k s) 0))"
    using assms(4,5) by (simp add: qk is_ready_def)
  have rc: "returncode (query w p a (polled p a k s) 0) = 0" using assms(3) by (simp add: qk)
  have "while_attempts w p a 1 None s =
          while_attempts w p a (1 + int k)
            (last_observed None (map (\<lambda>i. observed (query w p a s i)) [0..<k])) (polled p a k s)"
    by (rule rounds[OF pend bound])
  also have "\<dots> = (Inr Returned,
      (polled p a k s)\<lparr>calls := Suc (calls (polled p a k s)),
         trace := trace (polled p a k s) @ [Cmd (status_command p a), Spinner_ok]\<rparr>)"
    by (rule ready_round[OF le rc rdy])
  finally show ?thesis by (simp add: check_appid_status_def polled_def)
qed

lemma ready_third_facts:
  "returncode (ready_third_shell n c) = 0"
  "n \<noteq> 2 \<Longrightarrow> observed (ready_third_shell n c) = Some ''pending''"
  "observed (ready_third_shell 2 c) = Some ''Ready''"
  "\<not> is_ready (Some ''pending'')"
  "lower ''Ready'' = ''ready''"
proof -
  show "returncode (ready_third_shell n c) = 0" by (simp add: ready_third_shell_def)
  have a: "observed \<lparr>returncode = 0, stdout = ''Status: pending'', stderr = []\<rparr> = Some ''pending''"
    by code_simp
  show "n \<noteq> 2 \<Longrightarrow> observed (ready_third_shell n c) = Some ''pending''"
    by (simp add: ready_third_shell_def a)
  have b: "observed \<lparr>returncode = 0, stdout = ''Name: order-app'' @ [CHR 0x0A] @ ''Status: Ready'', stderr = []\<rparr> = Some ''Ready''"
    by code_simp
  show "observed (ready_third_shell 2 c) = Some ''Ready''"
    using b by (simp add: ready_third_shell_def)
  show "\<not> is_ready (Some ''pending'')" by code_simp
  show "lower ''Ready'' = ''ready''" by code_simp
qed

theorem ready_returns_at_once_witness:
  "check_appid_status (quiet_world ready_third_shell) (Some ''demo'') ''order-app'' s0 =
     (Inr (),
      \<lparr>calls = 3,
       trace = [Cmd ''diagrid appid get order-app -p demo'', Sleep 10,
                Cmd ''diagrid appid get order-app -p demo'', Sleep 10,
                Cmd ''diagrid appid get order-app -p demo'', Spinner_ok],
       environ = Map.empty\<rparr>)"
proof -
  let ?w = "quiet_world ready_third_shell"
  have q: "\<And>i. query ?w (Some ''demo'') ''order-app'' s0 i =
             ready_third_shell i ''diagrid appid get order-app -p demo''"
    by (simp add: query_def quiet_world_def s0_def status_command_def fstr_def)
  have h1: "(2::nat) < 8" by simp
  have h2: "\<forall>i<2. returncode (query ?w (Some ''demo'') ''order-app'' s0 i) = 0
              \<and> \<not> is_ready (observed (query ?w (Some ''demo'') ''order-app'' s0 i))"
    by (simp add: q ready_third_facts)
  have h3: "returncode (query ?w (Some ''demo'') ''order-app'' s0 2) = 0"
    by (simp add: q ready_third_facts)
  have h4: "observed (query ?w (Some ''demo'') ''order-app'' s0 2) = Some ''Ready''"
    by (simp add: q ready_third_facts)
  have h5: "lower ''Ready'' = ''ready'' \<or> lower ''Ready'' = ''available''"
    by (simp add: ready_third_facts)
  show ?thesis
    using ready_returns_at_once[OF h1 h2 h3 h4 h5]
    by (simp add: s0_def status_command_def fstr_def numeral_2_eq_2)
qed

text \<open>
  C4. A status outside the ready vocabulary never ends the poll with success. When each of
  the 8 queries answers with no status line or with a status whose lowercase form is
  neither \<^verbatim>\<open>ready\<close> nor \<^verbatim>\<open>available\<close>, \<open>check_appid_status\<close> performs exactly 8
  queries, each followed by the delay of 10 seconds, and then leaves by the timeout path
  only: the failure message with the last observed status, and \<^verbatim>\<open>sys.exit(1)\<close>.
\<close>

theorem not_ready_times_out_after_eight:
  assumes "\<forall>i<8. returncode (query w p a s i) = 0
             \<and> (\<forall>v. observed (query w p a s i) = Some v \<longrightarrow> lower v \<noteq> ''ready'' \<and> lower v \<noteq> ''available'')"
  shows "check_appid_status w p a s =
           (Inl (SystemExit 1),
            s\<lparr>calls := calls s + 8,
              trace := trace s @ concat (replicate 8 [Cmd (status_command p a), Sleep 10])
                @ [Spinner_fail ('' '' @ a @ '' is not ready. Once current status ''
                     @ fstr (last_observed None (map (\<lambda>i. observed (query w p a s i)) [0..<8]))
                     @ '' becomes ready, you can proceed.'')]\<rparr>)"
proof -
  have "\<forall>i<8. pending (query w p a s i)"
    using assms by (auto simp: pending_def is_ready_def split: option.splits)
  then show ?thesis
    by (simp add: check_appid_status_def exhausted polled_def emit_def)
qed

theorem not_ready_times_out_after_eight_witness:
  "check_appid_status (quiet_world pending_shell) (Some ''demo'') ''order-app'' s0 =
     (Inl (SystemExit 1),
      \<lparr>calls = 8,
       trace = [Cmd ''diagrid appid get order-app -p demo'', Sleep 10,
                Cmd ''diagrid appid get order-app -p demo'', Sleep 10,
                Cmd ''diagrid appid get order-app -p demo'', Sleep 10,
                Cmd ''diagrid appid get order-app -p demo'', Sleep 10,
                Cmd ''diagrid appid get order-app -p demo'', Sleep 10,
                Cmd ''diagrid appid get order-app -p demo'', Sleep 10,
                Cmd ''diagrid appid get order-app -p demo'', Sleep 10,
                Cmd ''diagrid appid get order-app -p demo'', Sleep 10,
                Spinner_fail '' order-app is not ready. Once current status pending becomes ready, you can proceed.''],
       environ = Map.empty\<rparr>)"
proof -
  let ?w = "quiet_world pending_shell"
  have q: "\<And>i. query ?w (Some ''demo'') ''order-app'' s0 i =
             pending_shell i ''diagrid appid get order-app -p demo''"
    by (simp add: query_def quiet_world_def s0_def status_command_def fstr_def)
  have h: "\<forall>i<8. returncode (query ?w (Some ''demo'') ''order-app'' s0 i) = 0
             \<and> (\<forall>v. observed (query ?w (Some ''demo'') ''order-app'' s0 i) = Some v
                   \<longrightarrow> lower v \<noteq> ''ready'' \<and> lower v \<noteq> ''available'')"
    by (simp add: q pending_shell_facts)
  have r: "replicate 8 x = [x, x, x, x, x, x, x, x]" for x :: "event list"
    by (simp add: numeral_eq_Suc)
  have u: "[0..<8] = [0, 1, 2, 3, 4, 5, 6, 7]"
    by (simp add: upt_rec)
  have m: "last_observed None
             (map (\<lambda>i. observed (query ?w (Some ''demo'') ''order-app'' s0 i)) [0..<8]) = Some ''pending''"
    by (simp add: q pending_shell_facts u)
  show ?thesis
    using not_ready_times_out_after_eight[OF h] unfolding m
    by (simp add: r s0_def status_command_def fstr_def)
qed

text \<open>
  C2. The claim: on exhaustion the failure carries the App ID and the last observed status,
  and the string \<^verbatim>\<open>unknown\<close> when no status line was ever parsed. The code formats
  \<open>last_status\<close> into the message as it is, so an absent status is rendered \<^verbatim>\<open>None\<close>:
  with a tool that prints nothing the message holds \<^verbatim>\<open>None\<close> and does not hold
  \<^verbatim>\<open>unknown\<close>.
\<close>

theorem timeout_without_status_counterexample:
  "observed \<lparr>returncode = 0, stdout = [], stderr = []\<rparr> = None
   \<and> fst (check_appid_status (quiet_world silent_shell) (Some ''demo'') ''order-app'' s0) =
       Inl (SystemExit 1)
   \<and> last (trace (snd (check_appid_status (quiet_world silent_shell) (Some ''demo'') ''order-app'' s0))) =
       Spinner_fail '' order-app is not ready. Once current status None becomes ready, you can proceed.''
   \<and> \<not> str_in ''unknown''
         '' order-app is not ready. Once current status None becomes ready, you can proceed.''"
proof -
  have "observed \<lparr>returncode = 0, stdout = [], stderr = []\<rparr> = None" by code_simp
  moreover have "\<not> str_in ''unknown''
         '' order-app is not ready. Once current status None becomes ready, you can proceed.''"
    by code_simp
  ultimately show ?thesis by (simp add: silent_poll)
qed

text \<open>
  C2, amended. When the 8 attempts are used up without a ready status,
  \<open>check_appid_status\<close> ends with \<^verbatim>\<open>sys.exit(1)\<close> after a failure message that carries
  the App ID and the last observed status; when no status line was parsed in the whole run,
  the message carries the text \<^verbatim>\<open>None\<close> in the place of the status.
\<close>

theorem timeout_carries_last_status:
  assumes "\<forall>i<8. returncode (query w p a s i) = 0 \<and> \<not> is_ready (observed (query w p a s i))"
  shows "fst (check_appid_status w p a s) = Inl (SystemExit 1)
     \<and> last (trace (snd (check_appid_status w p a s))) =
         Spinner_fail ('' '' @ a @ '' is not ready. Once current status ''
           @ fstr (last_observed None (map (\<lambda>i. observed (query w p a s i)) [0..<8]))
           @ '' becomes ready, you can proceed.'')
     \<and> ((\<forall>i<8. observed (query w p a s i) = None) \<longrightarrow>
          last (trace (snd (check_appid_status w p a s))) =
            Spinner_fail ('' '' @ a @ '' is not ready. Once current status None becomes ready, you can proceed.''))"
proof -
  have h: "\<forall>i<8. pending (query w p a s i)" using assms by (simp add: pending_def)
  have n: "last_observed None (map (\<lambda>i. observed (query w p a s i)) [0..<8]) = None"
    if "\<forall>i<8. observed (query w p a s i) = None"
    using that by (intro last_observed_all_None) auto
  show ?thesis
    using n by (auto simp: check_appid_status_exhausted[OF h] fstr_def)
qed

theorem timeout_carries_last_status_witness:
  "fst (check_appid_status (quiet_world pending_shell) (Some ''demo'') ''order-app'' s0) =
     Inl (SystemExit 1)
   \<and> last (trace (snd (check_appid_status (quiet_world pending_shell) (Some ''demo'') ''order-app'' s0))) =
       Spinner_fail '' order-app is not ready. Once current status pending becomes ready, you can proceed.''
   \<and> last (trace (snd (check_appid_status (quiet_world silent_shell) (Some ''demo'') ''order-app'' s0))) =
       Spinner_fail '' order-app is not ready. Once current status None becomes ready, you can proceed.''"
proof -
  let ?w = "quiet_world pending_shell"
  let ?v = "quiet_world silent_shell"
  have q: "\<And>i. query ?w (Some ''demo'') ''order-app'' s0 i =
             pending_shell i ''diagrid appid get order-app -p demo''"
    by (simp add: query_def quiet_world_def s0_def status_command_def fstr_def)
  have q': "\<And>i. query ?v (Some ''demo'') ''order-app'' s0 i =
             silent_shell i ''diagrid appid get order-app -p demo''"
    by (simp add: query_def quiet_world_def s0_def status_command_def fstr_def)
  have "\<not> is_ready (Some ''pending'')" by code_simp
  then have h: "\<forall>i<8. returncode (query ?w (Some ''demo'') ''order-app'' s0 i) = 0
             \<and> \<not> is_ready (observed (query ?w (Some ''demo'') ''order-app'' s0 i))"
    by (simp add: q pending_shell_facts)
  have h': "\<forall>i<8. returncode (query ?v (Some ''demo'') ''order-app'' s0 i) = 0
             \<and> \<not> is_ready (observed (query ?v (Some ''demo'') ''order-app'' s0 i))"
    by (simp add: q' silent_shell_facts)
  have u: "[0..<8] = [0, 1, 2, 3, 4, 5, 6, 7]"
    by (simp add: upt_rec)
  have m: "last_observed None
             (map (\<lambda>i. observed (query ?w (Some ''demo'') ''order-app'' s0 i)) [0..<8]) = Some ''pending''"
    by (simp add: q pending_shell_facts u)
  have n: "\<forall>i<8. observed (query ?v (Some ''demo'') ''order-app'' s0 i) = None"
    by (simp add: q' silent_shell_facts)
  have a: "last (trace (snd (check_appid_status ?v (Some ''demo'') ''order-app'' s0))) =
       Spinner_fail '' order-app is not ready. Once current status None becomes ready, you can proceed.''"
    using mp[OF conjunct2[OF conjunct2[OF timeout_carries_last_status[OF h']]] n] by simp
  show ?thesis
    using timeout_carries_last_status[OF h] a unfolding m
    by (simp add: fstr_def)
qed

text \<open>
  C6. The claim: the status is the text that follows the marker in the first line that
  holds it, trimmed. The code takes element 1 of \<^verbatim>\<open>line.split('Status:')\<close>, which ends
  at the next occurrence of the marker: in the line \<^verbatim>\<open>Status: Ready Status: Pending\<close>
  the text after the marker is \<^verbatim>\<open> Ready Status: Pending\<close> and the status read is
  \<^verbatim>\<open>Ready\<close>.
\<close>

theorem status_value_counterexample:
  "split ''Status: Ready Status: Pending'' [CHR 0x0A] = [[] @ ''Status:'' @ '' Ready Status: Pending'']
   \<and> scan_lines (split ''Status: Ready Status: Pending'' [CHR 0x0A]) None =
       Inr (Some ''Ready'', Some ''Ready'')
   \<and> strip '' Ready Status: Pending'' = ''Ready Status: Pending''
   \<and> ''Ready'' \<noteq> ''Ready Status: Pending''"
  by code_simp

text \<open>
  C6, amended. In each attempt the output is cut into lines at the newlines and the first
  line that holds the marker \<^verbatim>\<open>Status:\<close> is used: the status is the text between the
  first occurrence of the marker in that line and its next occurrence (or the end of the
  line when there is none), with the surrounding whitespace trimmed. That value becomes
  both \<open>status\<close> and \<open>last_status\<close>, whatever \<open>last_status\<close> was, and the lines after
  that line are not read.
\<close>

theorem first_status_line_is_parsed:
  assumes "split status_output [CHR 0x0A] = pre @ (a @ ''Status:'' @ b @ rest) # post"
    and "\<forall>line\<in>set pre. \<not> str_in ''Status:'' line"
    and "\<not> str_in ''Status:'' a" and "\<not> str_in ''Status:'' b"
    and "rest = [] \<or> prefix ''Status:'' rest"
  shows "scan_lines (split status_output [CHR 0x0A]) last_status = Inr (Some (strip b), Some (strip b))"
proof -
  obtain more where m: "split (a @ ''Status:'' @ b @ rest) ''Status:'' = a # b # more"
    using split_marker_second[OF assms(3,4,5)] by blast
  have "scan_lines (split status_output [CHR 0x0A]) last_status =
          scan_lines ((a @ ''Status:'' @ b @ rest) # post) last_status"
    by (simp only: assms(1) scan_lines_skip[OF assms(2)])
  also have "\<dots> = Inr (Some (strip b), Some (strip b))"
    using str_in_marker[of "''Status:''" a "b @ rest"] by (simp only: scan_lines.simps m) simp
  finally show ?thesis .
qed

theorem first_status_line_is_parsed_witness:
  "scan_lines (split (''Name: order-app'' @ [CHR 0x0A] @ ''App Status: Ready Status: old''
                      @ [CHR 0x0A] @ ''Status: later'') [CHR 0x0A]) (Some ''pending'') =
     Inr (Some ''Ready'', Some ''Ready'')"
proof -
  let ?out = "''Name: order-app'' @ [CHR 0x0A] @ ''App Status: Ready Status: old''
                      @ [CHR 0x0A] @ ''Status: later''"
  have h1: "split ?out [CHR 0x0A] =
      [''Name: order-app''] @ (''App '' @ ''Status:'' @ '' Ready '' @ ''Status: old'') # [''Status: later'']"
    by code_simp
  have h2: "\<forall>line\<in>set [''Name: order-app'']. \<not> str_in ''Status:'' line" by simp
  have h3: "\<not> str_in ''Status:'' ''App ''" by simp
  have h4: "\<not> str_in ''Status:'' '' Ready ''" by simp
  have h5: "''Status: old'' = [] \<or> prefix ''Status:'' ''Status: old''" by simp
  have s: "strip '' Ready '' = ''Ready''" by code_simp
  show ?thesis
    using first_status_line_is_parsed[OF h1 h2 h3 h4 h5, of "Some ''pending''"]
    by (simp only: s)
qed

text \<open>
  C7. \<open>last_status\<close> changes only in an attempt that parses a status line. An attempt
  whose output has no line with the marker hands \<open>last_status\<close> unchanged to the next
  attempt; an attempt that parses a status that is not ready hands that status on; and
  when none of the 8 outputs has a status line, the loop is left with \<open>last_status\<close>
  still absent.
\<close>

theorem last_status_kept_without_status_line:
  "(attempt \<le> max_attempts \<and> returncode (query w p a s 0) = 0
      \<and> (\<forall>line\<in>set (split (strip (stdout (query w p a s 0))) [CHR 0x0A]). \<not> str_in ''Status:'' line)
     \<longrightarrow> while_attempts w p a attempt last_status s =
           while_attempts w p a (attempt + 1) last_status (polled p a 1 s))
   \<and> (attempt \<le> max_attempts \<and> returncode (query w p a s 0) = 0
      \<and> observed (query w p a s 0) = Some v \<and> \<not> is_ready (Some v)
     \<longrightarrow> while_attempts w p a attempt last_status s =
           while_attempts w p a (attempt + 1) (Some v) (polled p a 1 s))
   \<and> ((\<forall>i<8. returncode (query w p a s i) = 0
          \<and> (\<forall>line\<in>set (split (strip (stdout (query w p a s i))) [CHR 0x0A]). \<not> str_in ''Status:'' line))
     \<longrightarrow> while_attempts w p a 1 None s = (Inr (Exhausted None), polled p a 8 s))"
proof (intro conjI impI)
  assume h: "attempt \<le> max_attempts \<and> returncode (query w p a s 0) = 0
      \<and> (\<forall>line\<in>set (split (strip (stdout (query w p a s 0))) [CHR 0x0A]). \<not> str_in ''Status:'' line)"
  then have o: "observed (query w p a s 0) = None" by (simp add: observed_no_marker)
  with h have "pending (query w p a s 0)" by (simp add: pending_def is_ready_def)
  with h show "while_attempts w p a attempt last_status s =
           while_attempts w p a (attempt + 1) last_status (polled p a 1 s)"
    using one_round[of attempt w p a s last_status] by (simp add: o)
next
  assume h: "attempt \<le> max_attempts \<and> returncode (query w p a s 0) = 0
      \<and> observed (query w p a s 0) = Some v \<and> \<not> is_ready (Some v)"
  then have "pending (query w p a s 0)" by (simp add: pending_def)
  with h show "while_attempts w p a attempt last_status s =
           while_attempts w p a (attempt + 1) (Some v) (polled p a 1 s)"
    using one_round[of attempt w p a s last_status] by simp
next
  assume h: "\<forall>i<8. returncode (query w p a s i) = 0
          \<and> (\<forall>line\<in>set (split (strip (stdout (query w p a s i))) [CHR 0x0A]). \<not> str_in ''Status:'' line)"
  then have o: "\<forall>i<8. observed (query w p a s i) = None" by (simp add: observed_no_marker)
  with h have "\<forall>i<8. pending (query w p a s i)" by (simp add: pending_def is_ready_def)
  then have "while_attempts w p a 1 None s =
           (Inr (Exhausted (last_observed None (map (\<lambda>i. observed (query w p a s i)) [0..<8]))),
            polled p a 8 s)"
    by (rule exhausted)
  moreover have "last_observed None (map (\<lambda>i. observed (query w p a s i)) [0..<8]) = None"
    using o by (intro last_observed_all_None) auto
  ultimately show "while_attempts w p a 1 None s = (Inr (Exhausted None), polled p a 8 s)"
    by simp
qed

theorem last_status_kept_without_status_line_witness:
  "while_attempts (quiet_world silent_shell) (Some ''demo'') ''order-app'' 3 (Some ''creating'') s0 =
     while_attempts (quiet_world silent_shell) (Some ''demo'') ''order-app'' 4 (Some ''creating'')
       (polled (Some ''demo'') ''order-app'' 1 s0)
   \<and> while_attempts (quiet_world pending_shell) (Some ''demo'') ''order-app'' 3 (Some ''creating'') s0 =
     while_attempts (quiet_world pending_shell) (Some ''demo'') ''order-app'' 4 (Some ''pending'')
       (polled (Some ''demo'') ''order-app'' 1 s0)
   \<and> while_attempts (quiet_world silent_shell) (Some ''demo'') ''order-app'' 1 None s0 =
     (Inr (Exhausted None), polled (Some ''demo'') ''order-app'' 8 s0)"
proof -
  let ?w = "quiet_world pending_shell"
  let ?v = "quiet_world silent_shell"
  have q: "\<And>i. query ?w (Some ''demo'') ''order-app'' s0 i =
             pending_shell i ''diagrid appid get order-app -p demo''"
    by (simp add: query_def quiet_world_def s0_def status_command_def fstr_def)
  have q': "\<And>i. query ?v (Some ''demo'') ''order-app'' s0 i =
             silent_shell i ''diagrid appid get order-app -p demo''"
    by (simp add: query_def quiet_world_def s0_def status_command_def fstr_def)
  have l: "\<And>i. \<forall>line\<in>set (split (strip (stdout (query ?v (Some ''demo'') ''order-app'' s0 i))) [CHR 0x0A]).
             \<not> str_in ''Status:'' line"
    by (simp add: q' silent_shell_def strip_def split_def)
  have np: "\<not> is_ready (Some ''pending'')" by code_simp
  have h1: "(3::int) \<le> max_attempts \<and> returncode (query ?v (Some ''demo'') ''order-app'' s0 0) = 0
      \<and> (\<forall>line\<in>set (split (strip (stdout (query ?v (Some ''demo'') ''order-app'' s0 0))) [CHR 0x0A]).
            \<not> str_in ''Status:'' line)"
    using l by (simp add: max_attempts_def q' silent_shell_facts)
  have h2: "(3::int) \<le> max_attempts \<and> returncode (query ?w (Some ''demo'') ''order-app'' s0 0) = 0
      \<and> observed (query ?w (Some ''demo'') ''order-app'' s0 0) = Some ''pending''
      \<and> \<not> is_ready (Some ''pending'')"
    using np by (simp add: max_attempts_def q pending_shell_facts)
  have h3: "\<forall>i<8. returncode (query ?v (Some ''demo'') ''order-app'' s0 i) = 0
          \<and> (\<forall>line\<in>set (split (strip (stdout (query ?v (Some ''demo'') ''order-app'' s0 i))) [CHR 0x0A]).
                \<not> str_in ''Status:'' line)"
    using l by (simp add: q' silent_shell_facts)
  note t1 = last_status_kept_without_status_line[where attempt = 3 and w = ?v
      and p = "Some ''demo''" and a = "''order-app''" and s = s0 and last_status = "Some ''creating''"]
  note t2 = last_status_kept_without_status_line[where attempt = 3 and w = ?w
      and p = "Some ''demo''" and a = "''order-app''" and s = s0 and last_status = "Some ''creating''"
      and v = "''pending''"]
  have a: "while_attempts ?v (Some ''demo'') ''order-app'' 3 (Some ''creating'') s0 =
     while_attempts ?v (Some ''demo'') ''order-app'' (3 + 1) (Some ''creating'')
       (polled (Some ''demo'') ''order-app'' 1 s0)"
    by (rule mp[OF conjunct1[OF t1] h1])
  have b: "while_attempts ?w (Some ''demo'') ''order-app'' 3 (Some ''creating'') s0 =
     while_attempts ?w (Some ''demo'') ''order-app'' (3 + 1) (Some ''pending'')
       (polled (Some ''demo'') ''order-app'' 1 s0)"
    by (rule mp[OF conjunct1[OF conjunct2[OF t2]] h2])
  have c: "while_attempts ?v (Some ''demo'') ''order-app'' 1 None s0 =
     (Inr (Exhausted None), polled (Some ''demo'') ''order-app'' 8 s0)"
    by (rule mp[OF conjunct2[OF conjunct2[OF t1]] h3])
  from a b c show ?thesis by simp
qed

text \<open>
  C5. In every run of \<open>main\<close> the commands that create the project, make it the default
  and create the App ID are built from \<open>prj_name\<close>, the value of the environment variable
  \<^verbatim>\<open>QUICKSTART_PROJECT_NAME\<close>, whatever \<^verbatim>\<open>--project-name\<close> is. The run either stops within
  these three commands, or goes on with the status query, which is the only command built
  from \<open>project_name\<close>, the value of \<^verbatim>\<open>--project-name\<close>; every later command is that
  query again or one of the fixed commands of the scaffolding step. With
  \<^verbatim>\<open>--project-name other\<close> and the variable set to \<^verbatim>\<open>demo\<close>, project \<^verbatim>\<open>demo\<close> is created and
  project \<^verbatim>\<open>other\<close> is polled.
\<close>

theorem project_name_sources:
  "\<exists>t. trace (snd (main w argv s)) =
          trace s @ Set_env ''CONFIG_FILE'' (main_config_file_name s) # Parse_args # t
     \<and> ((commands t \<noteq> []
          \<and> prefix (commands t)
               [''diagrid project create '' @ fstr (main_prj_name s) @ '' --deploy-managed-kv'',
                ''diagrid project use '' @ fstr (main_prj_name s),
                ''diagrid appid create -p '' @ fstr (main_prj_name s) @ '' order-app''])
        \<or> (\<exists>rest. commands t =
               [''diagrid project create '' @ fstr (main_prj_name s) @ '' --deploy-managed-kv'',
                ''diagrid project use '' @ fstr (main_prj_name s),
                ''diagrid appid create -p '' @ fstr (main_prj_name s) @ '' order-app'',
                ''diagrid appid get order-app -p '' @ fstr (main_project_name argv s)] @ rest
             \<and> (\<forall>c\<in>set rest. c = ''diagrid appid get order-app -p '' @ fstr (main_project_name argv s)
                               \<or> c \<in> set scaffold_commands)))"
proof -
  obtain t where t:
    "trace (snd (main w argv s)) =
       trace s @ Set_env ''CONFIG_FILE'' (main_config_file_name s) # Parse_args # t"
    "(fst (main w argv s) \<noteq> Inr ()
        \<and> provision_trace (main_prj_name s) (main_project_name argv s) (fst (main w argv s)) t)
     \<or> (\<exists>t1 t2. t = t1 @ t2
          \<and> provision_trace (main_prj_name s) (main_project_name argv s) (Inr ()) t1
          \<and> config_trace w (main_config_file argv s) (fst (main w argv s)) t2)"
    by (rule main_frame)
  have c: "set (commands t2) \<subseteq> set scaffold_commands"
    if "config_trace w cf r t2" for cf r t2
    using that
    by (auto simp: config_trace_def scaffold_trace_def scaffold_commands_def split: if_splits)
  from t(2) show ?thesis
  proof
    assume "fst (main w argv s) \<noteq> Inr ()
        \<and> provision_trace (main_prj_name s) (main_project_name argv s) (fst (main w argv s)) t"
    then show ?thesis
      by (intro exI[of _ t]) (auto simp: t(1) provision_trace_def status_command_def)
  next
    assume "\<exists>t1 t2. t = t1 @ t2
          \<and> provision_trace (main_prj_name s) (main_project_name argv s) (Inr ()) t1
          \<and> config_trace w (main_config_file argv s) (fst (main w argv s)) t2"
    then obtain t1 t2 where s: "t = t1 @ t2"
      "provision_trace (main_prj_name s) (main_project_name argv s) (Inr ()) t1"
      "config_trace w (main_config_file argv s) (fst (main w argv s)) t2"
      by blast
    from s(2) obtain n where n: "commands t1 =
        [''diagrid project create '' @ fstr (main_prj_name s) @ '' --deploy-managed-kv'',
         ''diagrid project use '' @ fstr (main_prj_name s),
         ''diagrid appid create -p '' @ fstr (main_prj_name s) @ '' order-app'']
        @ replicate (Suc n) (status_command (main_project_name argv s) ''order-app'')"
      by (auto simp: provision_trace_def)
    show ?thesis
      using c[OF s(3)]
      by (intro exI[of _ t]) (auto simp: t(1) s(1) n commands_append status_command_def)
  qed
qed

theorem project_name_sources_witness:
  "commands (trace (snd (main (file_world ready_shell [])
       \<lparr>arg_project_name = Some ''other'', arg_config_file = None\<rparr> demo_env))) =
     [''diagrid project create demo --deploy-managed-kv'', ''diagrid project use demo'',
      ''diagrid appid create -p demo order-app'', ''diagrid appid get order-app -p other'',
      ''diagrid dev scaffold'', ''python3 -m venv diagrid-venv'',
      ''./diagrid-venv/bin/pip install pyyaml'', ''./diagrid-venv/bin/python scaffold.py'']
   \<and> (\<exists>rest. commands (drop 2 (trace (snd (main (file_world ready_shell [])
          \<lparr>arg_project_name = Some ''other'', arg_config_file = None\<rparr> demo_env)))) =
        [''diagrid project create demo --deploy-managed-kv'', ''diagrid project use demo'',
         ''diagrid appid create -p demo order-app'', ''diagrid appid get order-app -p other''] @ rest
        \<and> (\<forall>c\<in>set rest. c = ''diagrid appid get order-app -p other'' \<or> c \<in> set scaffold_commands))"
proof -
  let ?w = "file_world ready_shell []"
  let ?a = "\<lparr>arg_project_name = Some ''other'', arg_config_file = None\<rparr>"
  have o: "fstr (main_project_name ?a demo_env) = ''other''"
    by (simp add: main_project_name_def fstr_def)
  have e: "commands (trace (snd (main ?w ?a demo_env))) =
     [''diagrid project create demo --deploy-managed-kv'', ''diagrid project use demo'',
      ''diagrid appid create -p demo order-app'', ''diagrid appid get order-app -p other'',
      ''diagrid dev scaffold'', ''python3 -m venv diagrid-venv'',
      ''./diagrid-venv/bin/pip install pyyaml'', ''./diagrid-venv/bin/python scaffold.py'']"
    by (simp add: main_ready_shell status_command_def o)
  obtain t where t: "trace (snd (main ?w ?a demo_env)) =
          trace demo_env @ Set_env ''CONFIG_FILE'' (main_config_file_name demo_env) # Parse_args # t"
     "(commands t \<noteq> []
          \<and> prefix (commands t)
               [''diagrid project create '' @ fstr (main_prj_name demo_env) @ '' --deploy-managed-kv'',
                ''diagrid project use '' @ fstr (main_prj_name demo_env),
                ''diagrid appid create -p '' @ fstr (main_prj_name demo_env) @ '' order-app''])
        \<or> (\<exists>rest. commands t =
               [''diagrid project create '' @ fstr (main_prj_name demo_env) @ '' --deploy-managed-kv'',
                ''diagrid project use '' @ fstr (main_prj_name demo_env),
                ''diagrid appid create -p '' @ fstr (main_prj_name demo_env) @ '' order-app'',
                ''diagrid appid get order-app -p '' @ fstr (main_project_name ?a demo_env)] @ rest
             \<and> (\<forall>c\<in>set rest. c = ''diagrid appid get order-app -p '' @ fstr (main_project_name ?a demo_env)
                               \<or> c \<in> set scaffold_commands))"
    using project_name_sources[of ?w ?a demo_env] by blast
  from t(1) have d: "drop 2 (trace (snd (main ?w ?a demo_env))) = t"
    by (simp add: demo_env_facts)
  from t(1) e have l: "length (commands t) = 8" by (simp add: demo_env_facts)
  have "\<not> prefix (commands t) [x, y, z]" for x y z :: string
    using l by (auto dest: prefix_length_le)
  with t(2) obtain rest where "commands t =
        [''diagrid project create demo --deploy-managed-kv'', ''diagrid project use demo'',
         ''diagrid appid create -p demo order-app'', ''diagrid appid get order-app -p other''] @ rest"
     "\<forall>c\<in>set rest. c = ''diagrid appid get order-app -p other'' \<or> c \<in> set scaffold_commands"
    by (auto simp: demo_env_facts o)
  with e d show ?thesis by blast
qed

text \<open>
  C8. When the steps of \<open>main\<close> up to the poll have succeeded, leaving state \<open>s3\<close>:
  if a file exists at \<open>config_file\<close>, the next event is its removal, no other removal
  follows, and the scaffolding step starts right after it (or, when the removal fails, the
  run ends with the failure mark and \<^verbatim>\<open>sys.exit(1)\<close>); if no file exists there, the next
  event is the first command of the scaffolding step and the run removes nothing.
\<close>

theorem existing_config_file_removed_before_scaffold:
  assumes "main_until_poll w argv s = (Inr (), s3)"
  shows "(isfile w (main_config_file argv s) \<longrightarrow>
            (\<exists>t. trace (snd (main w argv s)) = trace s3 @ Remove (main_config_file argv s) # t
               \<and> (\<forall>p. Remove p \<notin> set t)
               \<and> (if remove_raises w (main_config_file argv s)
                  then t = [Spinner_fail []] \<and> fst (main w argv s) = Inl (SystemExit 1)
                  else \<exists>t'. t = Cmd ''diagrid dev scaffold'' # t')))
       \<and> (\<not> isfile w (main_config_file argv s) \<longrightarrow>
            (\<exists>t'. trace (snd (main w argv s)) = trace s3 @ Cmd ''diagrid dev scaffold'' # t')
            \<and> (\<forall>p. Remove p \<notin> set (drop (length (trace s)) (trace (snd (main w argv s))))))"
proof -
  let ?cf = "main_config_file argv s"
  have m: "main w argv s =
             then_do (remove_existing w ?cf) (\<lambda>_. scaffold_and_update_config w ?cf) s3"
    by (simp add: main_after_poll assms)
  obtain t where t: "trace (snd (main w argv s)) = trace s3 @ t"
    "config_trace w ?cf (fst (main w argv s)) t"
    unfolding m using produces_config by (rule producesD)
  obtain t1 where t1: "trace s3 =
       trace s @ Set_env ''CONFIG_FILE'' (main_config_file_name s) # Parse_args # t1"
    "provision_trace (main_prj_name s) (main_project_name argv s) (Inr ()) t1"
    using main_until_poll_frame[of w argv s] by (auto simp: assms)
  have p1: "Remove p \<notin> set t1" for p
    using t1(2) by (simp add: provision_trace_def plain_no_remove)
  show ?thesis
  proof (intro conjI impI)
    assume f: "isfile w ?cf"
    show "\<exists>t. trace (snd (main w argv s)) = trace s3 @ Remove ?cf # t
               \<and> (\<forall>p. Remove p \<notin> set t)
               \<and> (if remove_raises w ?cf
                  then t = [Spinner_fail []] \<and> fst (main w argv s) = Inl (SystemExit 1)
                  else \<exists>t'. t = Cmd ''diagrid dev scaffold'' # t')"
      using t f by (auto simp: config_trace_def scaffold_trace_def plain_no_remove)
  next
    assume f: "\<not> isfile w ?cf"
    then obtain t' where t': "t = Cmd ''diagrid dev scaffold'' # t'" "scaffold_trace t'"
      using t(2) by (auto simp: config_trace_def)
    show "\<exists>t'. trace (snd (main w argv s)) = trace s3 @ Cmd ''diagrid dev scaffold'' # t'"
      using t(1) t'(1) by simp
    show "\<forall>p. Remove p \<notin> set (drop (length (trace s)) (trace (snd (main w argv s))))"
      using p1 t' by (simp add: t(1) t1(1) scaffold_trace_def plain_no_remove)
  qed
qed

theorem existing_config_file_removed_before_scaffold_witness:
  "(\<exists>t'. trace (snd (main (file_world ready_shell [''dev-demo.yaml''])
              \<lparr>arg_project_name = None, arg_config_file = None\<rparr> demo_env)) =
          trace (snd (main_until_poll (file_world ready_shell [''dev-demo.yaml''])
              \<lparr>arg_project_name = None, arg_config_file = None\<rparr> demo_env))
            @ Remove ''dev-demo.yaml'' # Cmd ''diagrid dev scaffold'' # t')
   \<and> (\<exists>t'. trace (snd (main (file_world ready_shell [])
              \<lparr>arg_project_name = None, arg_config_file = None\<rparr> demo_env)) =
          trace (snd (main_until_poll (file_world ready_shell [])
              \<lparr>arg_project_name = None, arg_config_file = None\<rparr> demo_env))
            @ Cmd ''diagrid dev scaffold'' # t')
   \<and> (\<forall>p. Remove p \<notin> set (trace (snd (main (file_world ready_shell [])
              \<lparr>arg_project_name = None, arg_config_file = None\<rparr> demo_env))))"
proof -
  let ?a = "\<lparr>arg_project_name = None, arg_config_file = None\<rparr>"
  let ?w = "file_world ready_shell [''dev-demo.yaml'']"
  let ?v = "file_world ready_shell []"
  have cf: "main_config_file ?a demo_env = ''dev-demo.yaml''"
    by (simp add: main_config_file_def demo_env_facts)
  have ok: "fst (main_until_poll w ?a demo_env) = Inr ()" if "fst (main w ?a demo_env) = Inr ()" for w
    using that by (simp add: main_after_poll split: prod.splits sum.splits)
  have hw: "main_until_poll ?w ?a demo_env = (Inr (), snd (main_until_poll ?w ?a demo_env))"
    using ok[of ?w] by (simp add: main_ready_shell prod_eq_iff)
  have hv: "main_until_poll ?v ?a demo_env = (Inr (), snd (main_until_poll ?v ?a demo_env))"
    using ok[of ?v] by (simp add: main_ready_shell prod_eq_iff)
  have fw: "isfile ?w (main_config_file ?a demo_env)" "\<not> remove_raises ?w (main_config_file ?a demo_env)"
    by (simp_all add: file_world_def cf)
  have fv: "\<not> isfile ?v (main_config_file ?a demo_env)"
    by (simp add: file_world_def)
  have 1: "\<exists>t'. trace (snd (main ?w ?a demo_env)) =
          trace (snd (main_until_poll ?w ?a demo_env)) @ Remove ''dev-demo.yaml'' # Cmd ''diagrid dev scaffold'' # t'"
    using existing_config_file_removed_before_scaffold[OF hw] fw by (auto simp: cf)
  have 2: "(\<exists>t'. trace (snd (main ?v ?a demo_env)) =
          trace (snd (main_until_poll ?v ?a demo_env)) @ Cmd ''diagrid dev scaffold'' # t')
        \<and> (\<forall>p. Remove p \<notin> set (drop (length (trace demo_env)) (trace (snd (main ?v ?a demo_env)))))"
    using existing_config_file_removed_before_scaffold[OF hv] fv by blast
  from 1 2 show ?thesis by (simp add: demo_env_facts)
qed

text \<open>
  C10. \<open>main\<close> sets \<^verbatim>\<open>CONFIG_FILE\<close> to \<^verbatim>\<open>dev-<project>.yaml\<close>, built from the environment
  variable \<^verbatim>\<open>QUICKSTART_PROJECT_NAME\<close>, as its first effect, before the arguments are
  parsed; nothing writes the environment afterwards, so the exported value is the same for
  every \<^verbatim>\<open>--config-file\<close>. The only file that \<open>main\<close> removes is \<open>config_file\<close>, the value
  of \<^verbatim>\<open>--config-file\<close>, which is also the argument passed to
  \<open>scaffold_and_update_config\<close>. In the witness \<^verbatim>\<open>custom.yaml\<close> is removed while
  \<^verbatim>\<open>CONFIG_FILE\<close> names \<^verbatim>\<open>dev-demo.yaml\<close>.
\<close>

theorem exported_config_file_fixed:
  "environ (snd (main w argv s)) =
     (environ s)(''CONFIG_FILE'' \<mapsto> ''dev-'' @ fstr (environ s ''QUICKSTART_PROJECT_NAME'') @ ''.yaml'')
   \<and> (\<exists>t. trace (snd (main w argv s)) =
            trace s @ Set_env ''CONFIG_FILE'' (''dev-'' @ fstr (environ s ''QUICKSTART_PROJECT_NAME'') @ ''.yaml'')
              # Parse_args # t
        \<and> (\<forall>k v. Set_env k v \<notin> set t)
        \<and> (\<forall>p. Remove p \<in> set t \<longrightarrow> p = main_config_file argv s))"
proof -
  obtain t where t:
    "trace (snd (main w argv s)) =
       trace s @ Set_env ''CONFIG_FILE'' (main_config_file_name s) # Parse_args # t"
    "environ (snd (main w argv s)) = (environ s)(''CONFIG_FILE'' \<mapsto> main_config_file_name s)"
    "(fst (main w argv s) \<noteq> Inr ()
        \<and> provision_trace (main_prj_name s) (main_project_name argv s) (fst (main w argv s)) t)
     \<or> (\<exists>t1 t2. t = t1 @ t2
          \<and> provision_trace (main_prj_name s) (main_project_name argv s) (Inr ()) t1
          \<and> config_trace w (main_config_file argv s) (fst (main w argv s)) t2)"
    by (rule main_frame)
  have n: "main_config_file_name s = ''dev-'' @ fstr (environ s ''QUICKSTART_PROJECT_NAME'') @ ''.yaml''"
    by (simp add: main_config_file_name_def main_prj_name_def)
  have c: "(\<forall>k v. Set_env k v \<notin> set t2) \<and> (\<forall>p. Remove p \<in> set t2 \<longrightarrow> p = cf)"
    if "config_trace w cf r t2" for cf r t2
    using that
    by (auto simp: config_trace_def scaffold_trace_def plain_no_remove plain_no_set_env
          split: if_splits)
  have p: "(\<forall>k v. Set_env k v \<notin> set t1) \<and> (\<forall>p. Remove p \<notin> set t1)"
    if "provision_trace a b r t1" for a b r t1
    using that by (simp add: provision_trace_def plain_no_remove plain_no_set_env)
  have "(\<forall>k v. Set_env k v \<notin> set t) \<and> (\<forall>p. Remove p \<in> set t \<longrightarrow> p = main_config_file argv s)"
    using t(3)
  proof
    assume "fst (main w argv s) \<noteq> Inr ()
        \<and> provision_trace (main_prj_name s) (main_project_name argv s) (fst (main w argv s)) t"
    then show ?thesis using p by blast
  next
    assume "\<exists>t1 t2. t = t1 @ t2
          \<and> provision_trace (main_prj_name s) (main_project_name argv s) (Inr ()) t1
          \<and> config_trace w (main_config_file argv s) (fst (main w argv s)) t2"
    then obtain t1 t2 where "t = t1 @ t2"
      "provision_trace (main_prj_name s) (main_project_name argv s) (Inr ()) t1"
      "config_trace w (main_config_file argv s) (fst (main w argv s)) t2"
      by blast
    then show ?thesis using p[of _ _ _ t1] c[of _ _ t2] by auto
  qed
  with t(1,2) show ?thesis unfolding n by blast
qed

theorem exported_config_file_fixed_witness:
  "environ (snd (main (file_world ready_shell [''custom.yaml''])
       \<lparr>arg_project_name = None, arg_config_file = Some ''custom.yaml''\<rparr> demo_env)) ''CONFIG_FILE'' =
     Some ''dev-demo.yaml''
   \<and> Remove ''custom.yaml'' \<in> set (trace (snd (main (file_world ready_shell [''custom.yaml''])
       \<lparr>arg_project_name = None, arg_config_file = Some ''custom.yaml''\<rparr> demo_env)))
   \<and> Remove ''dev-demo.yaml'' \<notin> set (trace (snd (main (file_world ready_shell [''custom.yaml''])
       \<lparr>arg_project_name = None, arg_config_file = Some ''custom.yaml''\<rparr> demo_env)))"
proof -
  let ?w = "file_world ready_shell [''custom.yaml'']"
  let ?a = "\<lparr>arg_project_name = None, arg_config_file = Some ''custom.yaml''\<rparr>"
  have cf: "main_config_file ?a demo_env = ''custom.yaml''"
    by (simp add: main_config_file_def)
  have q: "environ demo_env ''QUICKSTART_PROJECT_NAME'' = Some ''demo''"
    by (simp add: demo_env_def)
  obtain t where t:
    "environ (snd (main ?w ?a demo_env)) =
       (environ demo_env)(''CONFIG_FILE'' \<mapsto> ''dev-'' @ fstr (environ demo_env ''QUICKSTART_PROJECT_NAME'') @ ''.yaml'')"
    "trace (snd (main ?w ?a demo_env)) =
       trace demo_env @ Set_env ''CONFIG_FILE'' (''dev-'' @ fstr (environ demo_env ''QUICKSTART_PROJECT_NAME'') @ ''.yaml'')
         # Parse_args # t"
    "\<forall>p. Remove p \<in> set t \<longrightarrow> p = main_config_file ?a demo_env"
    using exported_config_file_fixed[of ?w ?a demo_env] by blast
  have r: "Remove ''custom.yaml'' \<in> set (trace (snd (main ?w ?a demo_env)))"
    by (simp add: main_ready_shell cf)
  have "Remove ''dev-demo.yaml'' \<notin> set t" using t(3) by (auto simp: cf)
  then have n: "Remove ''dev-demo.yaml'' \<notin> set (trace (snd (main ?w ?a demo_env)))"
    by (simp add: t(2) demo_env_facts)
  from t(1) r n show ?thesis by (simp add: q fstr_def)
qed

text \<open>
  C9. The claim: the program exits with status 0 only when every step succeeds and with
  status 1 on every failure path, the first of them missing Node.js or npm. The check for
  them, \<open>check_js_installed\<close>, exits with status 1 when \<^verbatim>\<open>node -v\<close> or \<^verbatim>\<open>npm -v\<close> fails,
  but \<open>main\<close> never calls it: on a machine where both fail and every other command
  succeeds, \<open>main\<close> runs neither of them and the program exits with status 0. On the
  paths that \<open>main\<close> does take, the status is 0 when \<open>main\<close> returns and 1 otherwise
  (lemma \<open>main_exit_status\<close>).
\<close>

theorem missing_node_not_detected:
  "exit_status (fst (main (quiet_world no_node_shell)
       \<lparr>arg_project_name = None, arg_config_file = None\<rparr> demo_env)) = 0
   \<and> Cmd ''node -v'' \<notin> set (trace (snd (main (quiet_world no_node_shell)
       \<lparr>arg_project_name = None, arg_config_file = None\<rparr> demo_env)))
   \<and> exit_status (fst (check_js_installed (quiet_world no_node_shell) demo_env)) = 1"
proof -
  let ?w = "quiet_world no_node_shell"
  let ?a = "\<lparr>arg_project_name = None, arg_config_file = None\<rparr>"
  have m: "main ?w ?a demo_env =
     (Inr (),
      demo_env\<lparr>calls := 8,
        trace :=
          [Set_env ''CONFIG_FILE'' ''dev-demo.yaml'', Parse_args,
           Cmd ''diagrid project create demo --deploy-managed-kv'', Spinner_ok,
           Cmd ''diagrid project use demo'', Spinner_ok,
           Cmd ''diagrid appid create -p demo order-app'', Spinner_ok,
           Cmd ''diagrid appid get order-app -p demo'', Spinner_ok,
           Cmd ''diagrid dev scaffold'', Cmd ''python3 -m venv diagrid-venv'',
           Cmd ''./diagrid-venv/bin/pip install pyyaml'',
           Cmd ''./diagrid-venv/bin/python scaffold.py'', Spinner_ok],
        environ := (environ demo_env)(''CONFIG_FILE'' \<mapsto> ''dev-demo.yaml'')\<rparr>)"
    using main_success[of ?w demo_env ?a]
    by (simp add: quiet_world_def no_node_shell_facts demo_env_facts status_command_def
          main_project_name_def)
  have j: "check_js_installed ?w demo_env =
     (Inl (SystemExit 1),
      demo_env\<lparr>calls := 2, trace := [Cmd ''node -v'', Cmd ''npm -v'', Spinner_fail []]\<rparr>)"
    by (simp add: check_js_installed_def then_do_def run_command_def error_def emit_def Let_def
          quiet_world_def no_node_shell_facts demo_env_facts)
  show ?thesis by (simp add: m j exit_status_def)
qed

end
